theory Spec2Isabelle
  imports Complex_Main
begin

section \<open>JavaScript values: numbers, errors, array reduction\<close>

text \<open>
  The two analysis services of the mobile app (\<^verbatim>\<open>offlineAnalysis.js\<close> and
  \<^verbatim>\<open>cheatDetection.js\<close>) are embedded as HOL functions. JavaScript numbers are
  modelled as exact reals; a thrown exception is the left summand of a sum type, so that
  every \<^verbatim>\<open>try\<close>/\<^verbatim>\<open>catch\<close> of the source is a case distinction of the model.
\<close>

datatype js_error = TypeError string | Error string

fun message :: "js_error \<Rightarrow> string" where
  "message (TypeError m) = m"
| "message (Error m) = m"

text \<open>Sequencing of statements that may throw: the first exception wins.\<close>

definition bindE :: "js_error + 'a \<Rightarrow> ('a \<Rightarrow> js_error + 'b) \<Rightarrow> js_error + 'b" where
  "bindE m f = (case m of Inl e \<Rightarrow> Inl e | Inr v \<Rightarrow> f v)"

text \<open>
  \<^verbatim>\<open>values.reduce((a, b) => a + b)\<close> without an initial value: a TypeError on the empty
  array, otherwise the left fold that starts at the first element.
\<close>

definition reduceSum :: "real list \<Rightarrow> js_error + real" where
  "reduceSum values =
     (case values of
        [] \<Rightarrow> Inl (TypeError ''Reduce of empty array with no initial value'')
      | v # vs \<Rightarrow> Inr (foldl (+) v vs))"

text \<open>
  \<^verbatim>\<open>calculateVariance(values, mean = null)\<close>, the same method in both services. The
  expression \<^verbatim>\<open>mean || ...\<close> recomputes the mean when the argument is null or 0.
\<close>

definition calculateVariance :: "real list \<Rightarrow> real option \<Rightarrow> js_error + real" where
  "calculateVariance values mean =
     bindE (case mean of
              Some m \<Rightarrow> if m \<noteq> 0 then Inr m
                        else bindE (reduceSum values) (\<lambda>s. Inr (s / real (length values)))
            | None \<Rightarrow> bindE (reduceSum values) (\<lambda>s. Inr (s / real (length values))))
       (\<lambda>avg. bindE (reduceSum (map (\<lambda>v. (v - avg)\<^sup>2) values))
          (\<lambda>s. Inr (s / real (length values))))"

section \<open>Pose data and movement phases (offlineAnalysis.js)\<close>

record keypoint =
  kx :: real
  ky :: real
  kscore :: real

record angles =
  leftElbow :: "real option"
  rightElbow :: "real option"
  leftKnee :: "real option"
  rightKnee :: "real option"

record point =
  px :: real
  py :: real

text \<open>One element of \<^verbatim>\<open>poseData\<close>, as \<^verbatim>\<open>analyzePoses\<close> builds it.\<close>

record poseAnalysis =
  frameId :: nat
  timestamp :: real
  keypoints :: "(string \<times> keypoint) list"
  poseScore :: real
  bodyAngles :: angles
  centerOfMass :: point

record movementPhase =
  phase :: string
  startFrame :: nat
  endFrame :: nat
  duration :: real

text \<open>\<^verbatim>\<open>angle || 90\<close>: a missing angle and the angle 0 both become 90.\<close>

definition orDefault :: "real option \<Rightarrow> real \<Rightarrow> real" where
  "orDefault a d = (case a of None \<Rightarrow> d | Some v \<Rightarrow> if v = 0 then d else v)"

text \<open>
  The body of the \<^verbatim>\<open>for\<close> loop of \<^verbatim>\<open>identifyRepetitivePhases\<close>, on the loop state
  \<open>(isUpPhase, phaseStart, phases)\<close>.
\<close>

definition repetitiveStep ::
  "poseAnalysis list \<Rightarrow> string \<Rightarrow> nat \<Rightarrow> bool \<times> nat \<times> movementPhase list
     \<Rightarrow> bool \<times> nat \<times> movementPhase list" where
  "repetitiveStep poseData testType i st =
     (case st of (isUpPhase, phaseStart, phases) \<Rightarrow>
        let currPose = poseData ! i;
            angle = orDefault (if testType = ''sit-ups''
                               then leftKnee (bodyAngles currPose)
                               else leftElbow (bodyAngles currPose)) 90
        in if isUpPhase \<and> angle < 60 then
             (False, i, phases @ [\<lparr>phase = ''down'', startFrame = phaseStart, endFrame = i,
                duration = (timestamp currPose - timestamp (poseData ! phaseStart)) / 1000\<rparr>])
           else if \<not> isUpPhase \<and> angle > 120 then
             (True, i, phases @ [\<lparr>phase = ''up'', startFrame = phaseStart, endFrame = i,
                duration = (timestamp currPose - timestamp (poseData ! phaseStart)) / 1000\<rparr>])
           else (isUpPhase, phaseStart, phases))"

definition identifyRepetitivePhases :: "poseAnalysis list \<Rightarrow> string \<Rightarrow> movementPhase list" where
  "identifyRepetitivePhases poseData testType =
     snd (snd (fold (repetitiveStep poseData testType) [1..<length poseData] (True, 0, [])))"

definition countRepetitiveMovements :: "poseAnalysis list \<Rightarrow> string \<Rightarrow> nat" where
  "countRepetitiveMovements poseData testType =
     length (identifyRepetitivePhases poseData testType) div 2"

definition countRepetitions :: "poseAnalysis list \<Rightarrow> string \<Rightarrow> nat" where
  "countRepetitions poseData testType =
     (if testType \<in> set [''sit-ups'', ''push-ups'']
      then countRepetitiveMovements poseData testType else 1)"

text \<open>
  The reading of the specification: a repetition is a \<open>down\<close> phase directly followed by
  an \<open>up\<close> phase; a phase that finds no partner is skipped.
\<close>

fun completeCycles :: "movementPhase list \<Rightarrow> nat" where
  "completeCycles (p # q # ps) =
     (if phase p = ''down'' \<and> phase q = ''up'' then Suc (completeCycles ps)
      else completeCycles (q # ps))"
| "completeCycles ps = 0"

text \<open>
  \<^verbatim>\<open>identifyJumpPhases\<close>: the loop state is \<open>(currentPhase, phaseStart, phases)\<close>.
\<close>

definition getKneeAngleChange :: "poseAnalysis \<Rightarrow> poseAnalysis \<Rightarrow> real" where
  "getKneeAngleChange prevPose currPose =
     \<bar>orDefault (leftKnee (bodyAngles currPose)) 90 - orDefault (leftKnee (bodyAngles prevPose)) 90\<bar>"

definition getCenterOfMassChange :: "poseAnalysis \<Rightarrow> poseAnalysis \<Rightarrow> real" where
  "getCenterOfMassChange prevPose currPose = py (centerOfMass currPose) - py (centerOfMass prevPose)"

definition jumpStep ::
  "poseAnalysis list \<Rightarrow> nat \<Rightarrow> string \<times> nat \<times> movementPhase list
     \<Rightarrow> string \<times> nat \<times> movementPhase list" where
  "jumpStep poseData i st =
     (case st of (currentPhase, phaseStart, phases) \<Rightarrow>
        let prevPose = poseData ! (i - 1);
            currPose = poseData ! i;
            kneeAngleChange = getKneeAngleChange prevPose currPose;
            centerOfMassChange = getCenterOfMassChange prevPose currPose
        in if currentPhase = ''standing'' \<and> kneeAngleChange > 20 then
             (''crouch'', i, phases @ [\<lparr>phase = ''crouch'', startFrame = phaseStart, endFrame = i,
                duration = (timestamp currPose - timestamp (poseData ! phaseStart)) / 1000\<rparr>])
           else if currentPhase = ''crouch'' \<and> centerOfMassChange > 0.1 then
             (''jump'', i, phases @ [\<lparr>phase = ''jump'', startFrame = phaseStart, endFrame = i,
                duration = (timestamp currPose - timestamp (poseData ! phaseStart)) / 1000\<rparr>])
           else if currentPhase = ''jump'' \<and> centerOfMassChange < - 0.05 then
             (''landing'', i, phases @ [\<lparr>phase = ''landing'', startFrame = phaseStart, endFrame = i,
                duration = (timestamp currPose - timestamp (poseData ! phaseStart)) / 1000\<rparr>])
           else (currentPhase, phaseStart, phases))"

definition identifyJumpPhases :: "poseAnalysis list \<Rightarrow> movementPhase list" where
  "identifyJumpPhases poseData =
     snd (snd (fold (jumpStep poseData) [1..<length poseData] (''standing'', 0, [])))"

subsection \<open>Movement quality\<close>

text \<open>
  \<^verbatim>\<open>assessSitUpForm\<close>: on the empty sequence the average is \<^verbatim>\<open>0 / 0\<close>, a NaN, and
  the comparison \<^verbatim>\<open>NaN < 90\<close> is false.
\<close>

definition assessSitUpForm :: "poseAnalysis list \<Rightarrow> real" where
  "assessSitUpForm poseData =
     (if poseData = [] then 0.7
      else let avgKneeAngle =
                 foldl (\<lambda>sum p. sum + orDefault (leftKnee (bodyAngles p)) 90) 0 poseData
                   / real (length poseData)
           in if avgKneeAngle < 90 then 1.0 else 0.7)"

text \<open>
  \<^verbatim>\<open>assessPushUpForm\<close> reads \<^verbatim>\<open>pose.keypoints.leftShoulder.y\<close> and
  \<^verbatim>\<open>pose.keypoints.leftHip.y\<close>; a pose without one of the two keypoints makes the
  property access throw.
\<close>

definition keypointY :: "poseAnalysis \<Rightarrow> string \<Rightarrow> js_error + real" where
  "keypointY pose name =
     (case map_of (keypoints pose) name of
        None \<Rightarrow> Inl (TypeError ''Cannot read properties of undefined (reading 'y')'')
      | Some k \<Rightarrow> Inr (ky k))"

definition pushUpStep :: "poseAnalysis \<Rightarrow> js_error + real \<Rightarrow> js_error + real" where
  "pushUpStep pose acc =
     bindE acc (\<lambda>straightBodyScore.
       bindE (keypointY pose ''leftShoulder'') (\<lambda>shoulderY.
         bindE (keypointY pose ''leftHip'') (\<lambda>hipY.
           let shoulderHipDiff = \<bar>shoulderY - hipY\<bar>
           in Inr (if shoulderHipDiff > 0.1 then straightBodyScore - 0.1
                   else straightBodyScore))))"

definition assessPushUpForm :: "poseAnalysis list \<Rightarrow> js_error + real" where
  "assessPushUpForm poseData =
     bindE (fold pushUpStep poseData (Inr 1.0)) (\<lambda>straightBodyScore.
       Inr (max 0 straightBodyScore))"

definition assessJumpForm :: "poseAnalysis list \<Rightarrow> real" where
  "assessJumpForm poseData =
     (let phases = identifyJumpPhases poseData
      in if length phases \<ge> 3 then 1.0 else 0.5)"

definition assessForm :: "poseAnalysis list \<Rightarrow> string \<Rightarrow> js_error + real" where
  "assessForm poseData testType =
     (if testType = ''sit-ups'' then Inr (assessSitUpForm poseData)
      else if testType = ''push-ups'' then assessPushUpForm poseData
      else if testType = ''vertical-jump'' then Inr (assessJumpForm poseData)
      else Inr 1.0)"

definition assessConsistency :: "poseAnalysis list \<Rightarrow> string \<Rightarrow> js_error + real" where
  "assessConsistency poseData testType =
     (if testType \<in> set [''sit-ups'', ''push-ups''] then
        let phases = identifyRepetitivePhases poseData testType;
            durations = map duration phases
        in bindE (calculateVariance durations None) (\<lambda>variance.
             Inr (if variance < 0.5 then 1.0 else 0.7))
      else Inr 1.0)"

text \<open>
  \<^verbatim>\<open>assessRangeOfMotion\<close>: \<^verbatim>\<open>Math.max()\<close> of no arguments is \<open>-Infinity\<close> and
  \<^verbatim>\<open>Math.min()\<close> is \<open>Infinity\<close>, which decides the two comparisons on the empty sequence.
\<close>

definition assessRangeOfMotion :: "poseAnalysis list \<Rightarrow> string \<Rightarrow> real" where
  "assessRangeOfMotion poseData testType =
     (if testType = ''sit-ups'' then
        (if poseData = [] then 1.0
         else let maxAngle = Max (set (map (\<lambda>p. orDefault (leftKnee (bodyAngles p)) 90) poseData))
              in if maxAngle < 45 then 1.0 else 0.8)
      else if testType = ''push-ups'' then
        (if poseData = [] then 0.7
         else let minAngle = Min (set (map (\<lambda>p. orDefault (leftElbow (bodyAngles p)) 90) poseData))
              in if minAngle < 60 then 1.0 else 0.7)
      else 1.0)"

text \<open>
  \<^verbatim>\<open>poseData[poseData.length - 1].timestamp - poseData[0].timestamp\<close>: on the empty
  sequence the first index yields \<^verbatim>\<open>undefined\<close> and the property access throws.
\<close>

definition totalDurationOf :: "poseAnalysis list \<Rightarrow> js_error + real" where
  "totalDurationOf poseData =
     (if poseData = [] then Inl (TypeError ''Cannot read properties of undefined (reading 'timestamp')'')
      else Inr (timestamp (poseData ! (length poseData - 1)) - timestamp (poseData ! 0)))"

definition expectedDurations :: "(string \<times> real) list" where
  "expectedDurations =
     [(''vertical-jump'', 2000), (''sit-ups'', 30000), (''push-ups'', 30000),
      (''shuttle-run'', 20000), (''endurance-run'', 180000)]"

text \<open>
  A lookup \<^verbatim>\<open>table[testType]\<close> in an object literal also finds the properties every
  object inherits; for those names the value is a function or an object, not a number.
\<close>

definition objectPrototypeKeys :: "string list" where
  "objectPrototypeKeys =
     [''constructor'', ''__proto__'', ''hasOwnProperty'', ''isPrototypeOf'',
      ''propertyIsEnumerable'', ''toLocaleString'', ''toString'', ''valueOf'',
      ''__defineGetter__'', ''__defineSetter__'', ''__lookupGetter__'', ''__lookupSetter__'']"

definition expectedDuration :: "string \<Rightarrow> real" where
  "expectedDuration testType =
     (case map_of expectedDurations testType of Some d \<Rightarrow> d | None \<Rightarrow> 10000)"

text \<open>
  \<^verbatim>\<open>assessTiming\<close>. For an inherited property name \<^verbatim>\<open>expected\<close> is not a number, the
  ratio is NaN and both comparisons are false.
\<close>

definition assessTiming :: "poseAnalysis list \<Rightarrow> string \<Rightarrow> js_error + real" where
  "assessTiming poseData testType =
     bindE (totalDurationOf poseData) (\<lambda>totalDuration.
       if testType \<in> set objectPrototypeKeys then Inr 0.8
       else let expected = expectedDuration testType;
                ratio = totalDuration / expected
            in Inr (if ratio > 0.5 \<and> ratio < 2.0 then 1.0 else 0.8))"

record detailedScores =
  form :: real
  consistency :: real
  rangeOfMotion :: real
  timing :: real

record movementQuality =
  overallScore :: real
  detailedScores :: detailedScores
  quality :: string

definition qualityLabel :: "real \<Rightarrow> string" where
  "qualityLabel overall =
     (if overall > 0.8 then ''excellent''
      else if overall > 0.6 then ''good'' else ''needs-improvement'')"

definition assessMovementQuality :: "poseAnalysis list \<Rightarrow> string \<Rightarrow> js_error + movementQuality" where
  "assessMovementQuality poseData testType =
     bindE (assessForm poseData testType) (\<lambda>f.
       bindE (assessConsistency poseData testType) (\<lambda>c.
         let r = assessRangeOfMotion poseData testType
         in bindE (assessTiming poseData testType) (\<lambda>t.
              let scores = \<lparr>form = f, consistency = c, rangeOfMotion = r, timing = t\<rparr>;
                  overall = foldl (+) f [c, r, t] / 4
              in Inr \<lparr>overallScore = overall, detailedScores = scores,
                      quality = qualityLabel overall\<rparr>)))"

subsection \<open>Confidence\<close>

text \<open>
  \<^verbatim>\<open>calculateConfidence(performanceMetrics, cheatAnalysis)\<close> reads two fields only:
  \<^verbatim>\<open>cheatAnalysis.isSuspicious\<close> and \<^verbatim>\<open>performanceMetrics.movementQuality\<close>.
\<close>

definition calculateConfidence :: "real \<Rightarrow> bool \<Rightarrow> real" where
  "calculateConfidence movementQualityScore suspicious =
     (let confidence = 0.8;
          confidence = (if suspicious then confidence - 0.3 else confidence);
          confidence = (if movementQualityScore > 0.8 then confidence + 0.1 else confidence)
      in max 0 (min 1 confidence))"

section \<open>The specification's wording, and example inputs\<close>

text \<open>
  The cycle count as the specification words it: a pair of adjacent phases counts when its
  combined duration, in milliseconds, lies in \<open>[minCycleMs, maxCycleMs]\<close>. (The source
  keeps phase durations in seconds.)
\<close>

fun specCountCycles :: "real \<Rightarrow> real \<Rightarrow> movementPhase list \<Rightarrow> nat" where
  "specCountCycles minCycleMs maxCycleMs (p # q # ps) =
     (let cycleMs = (duration p + duration q) * 1000
      in (if minCycleMs \<le> cycleMs \<and> cycleMs \<le> maxCycleMs then 1 else 0)
         + specCountCycles minCycleMs maxCycleMs ps)"
| "specCountCycles minCycleMs maxCycleMs ps = 0"

text \<open>
  A phase sequence alternates when its phases are named \<open>down\<close>, \<open>up\<close>, \<open>down\<close>, ...
  in turn; \<open>alternates True\<close> begins with \<open>down\<close>.
\<close>

fun alternates :: "bool \<Rightarrow> movementPhase list \<Rightarrow> bool" where
  "alternates d [] = True"
| "alternates d (p # ps) = (phase p = (if d then ''down'' else ''up'') \<and> alternates (\<not> d) ps)"

text \<open>The confidence as the specification words it: the bonus at \<open>overall \<ge> 0.8\<close>.\<close>

definition claimedConfidence :: "real \<Rightarrow> bool \<Rightarrow> real" where
  "claimedConfidence overall suspicious =
     max 0 (min 1 (0.8 - (if suspicious then 0.3 else 0) + (if overall \<ge> 0.8 then 0.1 else 0)))"

text \<open>The quality bands as the specification words them.\<close>

definition claimedQualityBand :: "real \<Rightarrow> string" where
  "claimedQualityBand s =
     (if s \<ge> 0.90 then ''excellent'' else if s \<ge> 0.75 then ''good''
      else if s \<ge> 0.50 then ''average'' else ''needs-improvement'')"

text \<open>
  Example pose sequences. \<open>poseAt i t knee elbow\<close> is frame \<open>i\<close> at time \<open>t\<close> (in
  milliseconds) with the given left knee and left elbow angles; the two keypoints are
  those of the base pose of \<^verbatim>\<open>simulatePoseData\<close>.
\<close>

definition poseAt :: "nat \<Rightarrow> real \<Rightarrow> real option \<Rightarrow> real option \<Rightarrow> poseAnalysis" where
  "poseAt i t knee elbow =
     \<lparr>frameId = i, timestamp = t,
      keypoints = [(''leftShoulder'', \<lparr>kx = 0.4, ky = 0.5, kscore = 0.8\<rparr>),
                   (''leftHip'', \<lparr>kx = 0.42, ky = 0.6, kscore = 0.8\<rparr>)],
      poseScore = 0.8,
      bodyAngles = \<lparr>leftElbow = elbow, rightElbow = None, leftKnee = knee, rightKnee = None\<rparr>,
      centerOfMass = \<lparr>px = 0.5, py = 0.65\<rparr>\<rparr>"

definition threePhasePoses :: "poseAnalysis list" where
  "threePhasePoses =
     [poseAt 0 0 (Some 90) None, poseAt 1 100 (Some 30) None,
      poseAt 2 200 (Some 150) None, poseAt 3 300 (Some 30) None]"

definition oneCyclePoses :: "real \<Rightarrow> poseAnalysis list" where
  "oneCyclePoses t =
     [poseAt 0 0 (Some 90) None, poseAt 1 1 (Some 30) None, poseAt 2 t (Some 150) None]"

definition boundaryPoses :: "poseAnalysis list" where
  "boundaryPoses = [poseAt 0 0 None None, poseAt 1 1000 None None]"

section \<open>Integrity analysis (cheatDetection.js)\<close>

text \<open>
  The fields the constructor of \<^verbatim>\<open>CheatDetectionService\<close> sets; no method assigns them
  again.
\<close>

definition maxFrameHistory :: nat where
  "maxFrameHistory = 50"

definition cheatThreshold :: real where
  "cheatThreshold = 0.7"

definition frameRate :: real where
  "frameRate = 30"

record colorDistribution =
  dominant :: string
  colorVariance :: real
  saturation :: real

record frameData =
  brightness :: real
  contrast :: real
  edges :: real
  motion :: real
  colors :: colorDistribution

record frame =
  f_id :: nat
  f_timestamp :: real
  f_data :: frameData

text \<open>
  \<^verbatim>\<open>simulateFrameData\<close> draws every number from \<^verbatim>\<open>Math.random()\<close>. The model takes
  the outcome of the draws as a parameter \<open>rnd\<close>: the frame data produced for each frame
  index of one invocation.
\<close>

definition extractFramesFromVideo :: "(nat \<Rightarrow> frameData) \<Rightarrow> string \<Rightarrow> js_error + frame list" where
  "extractFramesFromVideo rnd videoUri =
     Inr (map (\<lambda>i. \<lparr>f_id = i, f_timestamp = real i * (1000 / frameRate), f_data = rnd i\<rparr>)
            [0..<maxFrameHistory])"

subsection \<open>Frame analysis\<close>

record brightnessCheck =
  bc_isConsistent :: bool
  bc_variance :: real
  bc_avgBrightness :: real
  bc_suspiciousFrames :: nat

definition checkBrightnessConsistency :: "frame list \<Rightarrow> js_error + brightnessCheck" where
  "checkBrightnessConsistency frames =
     (let brightnessValues = map (\<lambda>frame. brightness (f_data frame)) frames
      in bindE (reduceSum brightnessValues) (\<lambda>s.
           let avgBrightness = s / real (length brightnessValues)
           in bindE (calculateVariance brightnessValues (Some avgBrightness)) (\<lambda>variance.
                Inr \<lparr>bc_isConsistent = variance < 0.1,
                     bc_variance = variance,
                     bc_avgBrightness = avgBrightness,
                     bc_suspiciousFrames =
                       length (filter (\<lambda>b. \<bar>b - avgBrightness\<bar> > 0.3) brightnessValues)\<rparr>)))"

record frameRateCheck =
  fr_isConsistent :: bool
  fr_variance :: real
  fr_avgFrameTime :: real
  fr_suspiciousDrops :: nat

definition checkFrameRateConsistency :: "frame list \<Rightarrow> js_error + frameRateCheck" where
  "checkFrameRateConsistency frames =
     (let timeStamps = map f_timestamp frames;
          timeDiffs = map (\<lambda>i. timeStamps ! i - timeStamps ! (i - 1)) [1..<length timeStamps]
      in bindE (reduceSum timeDiffs) (\<lambda>s.
           let avgDiff = s / real (length timeDiffs)
           in bindE (calculateVariance timeDiffs (Some avgDiff)) (\<lambda>variance.
                Inr \<lparr>fr_isConsistent = variance < 50,
                     fr_variance = variance,
                     fr_avgFrameTime = avgDiff,
                     fr_suspiciousDrops = length (filter (\<lambda>diff. diff > avgDiff * 2) timeDiffs)\<rparr>)))"

record resolutionCheck =
  rc_isConsistent :: bool
  rc_resolutionChanges :: nat
  rc_suspiciousChanges :: "nat list"

definition checkResolutionConsistency :: "frame list \<Rightarrow> resolutionCheck" where
  "checkResolutionConsistency frames =
     \<lparr>rc_isConsistent = True, rc_resolutionChanges = 0, rc_suspiciousChanges = []\<rparr>"

text \<open>
  \<^verbatim>\<open>expectedMotion[testType] || 30\<close>. For an inherited property name the value found is
  not a number (\<open>None\<close> here), the difference is NaN and the comparison is false.
\<close>

definition getExpectedMotionForTest :: "string \<Rightarrow> real option" where
  "getExpectedMotionForTest testType =
     (if testType \<in> set objectPrototypeKeys then None
      else case map_of [(''vertical-jump'', 60), (''sit-ups'', 40), (''shuttle-run'', 80),
                        (''endurance-run'', 50), (''height-weight'', 5)] testType of
             Some m \<Rightarrow> Some m
           | None \<Rightarrow> Some 30)"

record motionCheck =
  mc_isConsistent :: bool
  mc_avgMotion :: real
  mc_expectedMotion :: "real option"
  mc_suspiciousSpikes :: nat

definition checkMotionConsistency :: "frame list \<Rightarrow> string \<Rightarrow> js_error + motionCheck" where
  "checkMotionConsistency frames testType =
     (let motionValues = map (\<lambda>frame. motion (f_data frame)) frames
      in bindE (reduceSum motionValues) (\<lambda>s.
           let avgMotion = s / real (length motionValues);
               expectedMotion = getExpectedMotionForTest testType
           in Inr \<lparr>mc_isConsistent =
                     (case expectedMotion of None \<Rightarrow> False
                      | Some e \<Rightarrow> \<bar>avgMotion - e\<bar> < 30),
                   mc_avgMotion = avgMotion,
                   mc_expectedMotion = expectedMotion,
                   mc_suspiciousSpikes = length (filter (\<lambda>m. m > avgMotion * 2) motionValues)\<rparr>))"

record colorCheck =
  cc_isConsistent :: bool
  cc_avgVariance :: real
  cc_suspiciousChanges :: nat

definition checkColorConsistency :: "frame list \<Rightarrow> js_error + colorCheck" where
  "checkColorConsistency frames =
     (let colorVariances = map (\<lambda>frame. colorVariance (colors (f_data frame))) frames
      in bindE (reduceSum colorVariances) (\<lambda>s.
           let avgVariance = s / real (length colorVariances)
           in Inr \<lparr>cc_isConsistent = avgVariance < 30,
                   cc_avgVariance = avgVariance,
                   cc_suspiciousChanges =
                     length (filter (\<lambda>v. v > avgVariance * 2) colorVariances)\<rparr>))"

record frameAnalysis =
  brightnessConsistency :: brightnessCheck
  frameRateConsistency :: frameRateCheck
  resolutionConsistency :: resolutionCheck
  motionConsistency :: motionCheck
  colorConsistency :: colorCheck

definition analyzeFrames :: "frame list \<Rightarrow> string \<Rightarrow> js_error + frameAnalysis" where
  "analyzeFrames frames testType =
     bindE (checkBrightnessConsistency frames) (\<lambda>b.
       bindE (checkFrameRateConsistency frames) (\<lambda>r.
         bindE (checkMotionConsistency frames testType) (\<lambda>m.
           bindE (checkColorConsistency frames) (\<lambda>c.
             Inr \<lparr>brightnessConsistency = b, frameRateConsistency = r,
                  resolutionConsistency = checkResolutionConsistency frames,
                  motionConsistency = m, colorConsistency = c\<rparr>))))"

subsection \<open>Manipulation checks\<close>

record compressionCheck =
  cmp_hasArtifacts :: bool
  cmp_avgEdges :: real
  cmp_confidence :: real

definition detectCompressionArtifacts :: "frame list \<Rightarrow> js_error + compressionCheck" where
  "detectCompressionArtifacts frames =
     (let edgeValues = map (\<lambda>frame. edges (f_data frame)) frames
      in bindE (reduceSum edgeValues) (\<lambda>s.
           let avgEdges = s / real (length edgeValues)
           in Inr \<lparr>cmp_hasArtifacts = avgEdges < 100,
                   cmp_avgEdges = avgEdges,
                   cmp_confidence = max 0 (1 - avgEdges / 100)\<rparr>))"

record edgeCheck =
  ei_hasInconsistencies :: bool
  ei_variance :: real
  ei_confidence :: real

definition detectEdgeInconsistencies :: "frame list \<Rightarrow> js_error + edgeCheck" where
  "detectEdgeInconsistencies frames =
     (let edgeValues = map (\<lambda>frame. edges (f_data frame)) frames
      in bindE (calculateVariance edgeValues None) (\<lambda>variance.
           Inr \<lparr>ei_hasInconsistencies = variance > 500,
                ei_variance = variance,
                ei_confidence = min 1 (variance / 1000)\<rparr>))"

record metadataCheck =
  ma_hasAnomalies :: bool
  ma_anomalies :: "string list"
  ma_confidence :: real

definition checkMetadataAnomalies :: metadataCheck where
  "checkMetadataAnomalies = \<lparr>ma_hasAnomalies = False, ma_anomalies = [], ma_confidence = 0\<rparr>"

record suddenChange =
  sc_frame :: nat
  sc_change :: real
  sc_timestamp :: real

definition detectSuddenChanges :: "real list \<Rightarrow> real \<Rightarrow> suddenChange list" where
  "detectSuddenChanges values threshold =
     map (\<lambda>i. \<lparr>sc_frame = i, sc_change = \<bar>values ! i - values ! (i - 1)\<bar>,
               sc_timestamp = real i * (1000 / frameRate)\<rparr>)
       (filter (\<lambda>i. \<bar>values ! i - values ! (i - 1)\<bar> > threshold) [1..<length values])"

record splicingCheck =
  sd_hasSplicing :: bool
  sd_splicePoints :: "suddenChange list"
  sd_confidence :: real

definition detectSplicing :: "frame list \<Rightarrow> splicingCheck" where
  "detectSplicing frames =
     (let brightnessValues = map (\<lambda>frame. brightness (f_data frame)) frames;
          suddenChanges = detectSuddenChanges brightnessValues 0.3
      in \<lparr>sd_hasSplicing = length suddenChanges > 2,
          sd_splicePoints = suddenChanges,
          sd_confidence = min 1 (real (length suddenChanges) / 5)\<rparr>)"

record manipulationCheck =
  compressionArtifacts :: compressionCheck
  edgeInconsistencies :: edgeCheck
  metadataAnomalies :: metadataCheck
  splicingDetection :: splicingCheck

definition checkVideoManipulation :: "frame list \<Rightarrow> js_error + manipulationCheck" where
  "checkVideoManipulation frames =
     bindE (detectCompressionArtifacts frames) (\<lambda>c.
       bindE (detectEdgeInconsistencies frames) (\<lambda>e.
         Inr \<lparr>compressionArtifacts = c, edgeInconsistencies = e,
              metadataAnomalies = checkMetadataAnomalies,
              splicingDetection = detectSplicing frames\<rparr>))"

subsection \<open>Movement patterns\<close>

record movementDatum =
  md_motion :: real
  md_timestamp :: real

definition extractMovementData :: "frame list \<Rightarrow> movementDatum list" where
  "extractMovementData frames =
     map (\<lambda>frame. \<lparr>md_motion = motion (f_data frame), md_timestamp = f_timestamp frame\<rparr>) frames"

text \<open>\<^verbatim>\<open>patterns[testType] || 'unknown'\<close>; \<open>None\<close> stands for an inherited property.\<close>

definition getExpectedPattern :: "string \<Rightarrow> string option" where
  "getExpectedPattern testType =
     (if testType \<in> set objectPrototypeKeys then None
      else case map_of [(''vertical-jump'', ''burst''), (''sit-ups'', ''repetitive''),
                        (''shuttle-run'', ''back-and-forth''), (''endurance-run'', ''steady''),
                        (''height-weight'', ''static'')] testType of
             Some p \<Rightarrow> Some p
           | None \<Rightarrow> Some ''unknown'')"

record peak =
  pk_index :: nat
  pk_value :: real

definition findPeaks :: "real list \<Rightarrow> real \<Rightarrow> peak list" where
  "findPeaks values threshold =
     map (\<lambda>i. \<lparr>pk_index = i, pk_value = values ! i\<rparr>)
       (filter (\<lambda>i. values ! i > values ! (i - 1) \<and> values ! i > values ! (i + 1)
                     \<and> values ! i > threshold)
          [1..<length values - 1])"

text \<open>
  \<^verbatim>\<open>isRegularSpacing\<close>. With an average spacing of 0 every quotient is NaN or infinite
  and no spacing passes the test.
\<close>

definition isRegularSpacing :: "peak list \<Rightarrow> real \<Rightarrow> js_error + bool" where
  "isRegularSpacing peaks tolerance =
     (if length peaks < 2 then Inr False
      else let spacings = map (\<lambda>i. real (pk_index (peaks ! i)) - real (pk_index (peaks ! (i - 1))))
                            [1..<length peaks]
           in bindE (reduceSum spacings) (\<lambda>s.
                let avgSpacing = s / real (length spacings)
                in Inr (avgSpacing \<noteq> 0
                        \<and> list_all (\<lambda>sp. \<bar>sp - avgSpacing\<bar> / avgSpacing < tolerance) spacings)))"

definition hasRepetitivePattern :: "real list \<Rightarrow> js_error + bool" where
  "hasRepetitivePattern values =
     (let peaks = findPeaks values 0.3
      in if length peaks > 3 then isRegularSpacing peaks 0.2 else Inr False)"

definition hasBurstPattern :: "real list \<Rightarrow> js_error + bool" where
  "hasBurstPattern values =
     bindE (reduceSum values) (\<lambda>s.
       let maxMotion = Max (set values);
           avgMotion = s / real (length values)
       in Inr (maxMotion > avgMotion * 3))"

definition findAlternatingPattern :: "real list \<Rightarrow> nat list" where
  "findAlternatingPattern values =
     filter (\<lambda>i. (values ! i > values ! (i - 1) \<and> i mod 2 = 0)
                 \<or> (values ! i < values ! (i - 1) \<and> i mod 2 = 1))
       [1..<length values]"

definition hasBackAndForthPattern :: "real list \<Rightarrow> bool" where
  "hasBackAndForthPattern values = (length (findAlternatingPattern values) > 4)"

definition hasSteadyPattern :: "real list \<Rightarrow> js_error + bool" where
  "hasSteadyPattern values =
     bindE (calculateVariance values None) (\<lambda>variance.
       Inr (variance < 100 \<and> list_all (\<lambda>v. v > 20) values))"

definition identifyPattern :: "movementDatum list \<Rightarrow> js_error + string" where
  "identifyPattern movementData =
     (let motionValues = map md_motion movementData
      in bindE (reduceSum motionValues) (\<lambda>s.
           let avgMotion = s / real (length motionValues)
           in if avgMotion < 10 then Inr ''static''
              else bindE (hasRepetitivePattern motionValues) (\<lambda>repetitive.
                if repetitive then Inr ''repetitive''
                else bindE (hasBurstPattern motionValues) (\<lambda>burst.
                  if burst then Inr ''burst''
                  else if hasBackAndForthPattern motionValues then Inr ''back-and-forth''
                  else bindE (hasSteadyPattern motionValues) (\<lambda>steady.
                    if steady then Inr ''steady'' else Inr ''unknown'')))))"

record patternCheck =
  pc_isConsistent :: bool
  pc_expectedPattern :: "string option"
  pc_actualPattern :: string
  pc_confidence :: real

definition patternsMatch :: "string option \<Rightarrow> string \<Rightarrow> bool" where
  "patternsMatch expected actual = (expected = Some actual)"

definition calculatePatternMatchConfidence :: "string option \<Rightarrow> string \<Rightarrow> real" where
  "calculatePatternMatchConfidence expected actual = (if expected = Some actual then 1.0 else 0.0)"

definition checkPatternConsistency :: "movementDatum list \<Rightarrow> string \<Rightarrow> js_error + patternCheck" where
  "checkPatternConsistency movementData testType =
     (let expectedPattern = getExpectedPattern testType
      in bindE (identifyPattern movementData) (\<lambda>actualPattern.
           Inr \<lparr>pc_isConsistent = patternsMatch expectedPattern actualPattern,
                pc_expectedPattern = expectedPattern,
                pc_actualPattern = actualPattern,
                pc_confidence = calculatePatternMatchConfidence expectedPattern actualPattern\<rparr>))"

text \<open>
  \<^verbatim>\<open>analyzeMovementPatterns\<close> calls \<^verbatim>\<open>this.detectRepetitions(movementData, testType)\<close>.
  The class defines no method of that name, and nothing else in the repository does: the
  call is a call of \<^verbatim>\<open>undefined\<close> and throws a TypeError.
\<close>

definition detectRepetitions :: "movementDatum list \<Rightarrow> string \<Rightarrow> js_error + unit" where
  "detectRepetitions movementData testType =
     Inl (TypeError ''this.detectRepetitions is not a function'')"

definition calculateSpeeds :: "movementDatum list \<Rightarrow> real list" where
  "calculateSpeeds movementData =
     map (\<lambda>i. \<bar>md_motion (movementData ! i) - md_motion (movementData ! (i - 1))\<bar>
               / (md_timestamp (movementData ! i) - md_timestamp (movementData ! (i - 1))))
       (filter (\<lambda>i. md_timestamp (movementData ! i) - md_timestamp (movementData ! (i - 1)) > 0)
          [1..<length movementData])"

record speedCheck =
  spd_isConsistent :: bool
  spd_avgSpeed :: real
  spd_variance :: real
  spd_confidence :: real

definition checkSpeedConsistency :: "movementDatum list \<Rightarrow> js_error + speedCheck" where
  "checkSpeedConsistency movementData =
     (let speeds = calculateSpeeds movementData
      in bindE (reduceSum speeds) (\<lambda>s.
           let avgSpeed = s / real (length speeds)
           in bindE (calculateVariance speeds (Some avgSpeed)) (\<lambda>variance.
                Inr \<lparr>spd_isConsistent = variance < 50,
                     spd_avgSpeed = avgSpeed,
                     spd_variance = variance,
                     spd_confidence = max 0 (1 - variance / 100)\<rparr>)))"

record accelerationCheck =
  acc_avgAcceleration :: real
  acc_maxAcceleration :: real
  acc_isNatural :: bool
  acc_confidence :: real

definition analyzeAcceleration :: "movementDatum list \<Rightarrow> js_error + accelerationCheck" where
  "analyzeAcceleration movementData =
     (let speeds = calculateSpeeds movementData;
          accelerations = map (\<lambda>i. speeds ! i - speeds ! (i - 1)) [1..<length speeds]
      in bindE (reduceSum accelerations) (\<lambda>s.
           let avgAcceleration = s / real (length accelerations);
               maxAcceleration = Max (set accelerations)
           in Inr \<lparr>acc_avgAcceleration = avgAcceleration,
                   acc_maxAcceleration = maxAcceleration,
                   acc_isNatural = maxAcceleration < 10,
                   acc_confidence = max 0 (1 - maxAcceleration / 20)\<rparr>))"

record movementPatternAnalysis =
  patternConsistency :: patternCheck
  repetitionDetection :: unit
  speedConsistency :: speedCheck
  accelerationPatterns :: accelerationCheck

definition analyzeMovementPatterns :: "frame list \<Rightarrow> string \<Rightarrow> js_error + movementPatternAnalysis" where
  "analyzeMovementPatterns frames testType =
     (let movementData = extractMovementData frames
      in bindE (checkPatternConsistency movementData testType) (\<lambda>p.
           bindE (detectRepetitions movementData testType) (\<lambda>r.
             bindE (checkSpeedConsistency movementData) (\<lambda>s.
               bindE (analyzeAcceleration movementData) (\<lambda>a.
                 Inr \<lparr>patternConsistency = p, repetitionDetection = r,
                      speedConsistency = s, accelerationPatterns = a\<rparr>)))))"

subsection \<open>External assistance\<close>

record peopleCheck =
  mp_hasMultiplePeople :: bool
  mp_personCount :: nat
  mp_confidence :: real

definition detectMultiplePeople :: "frame list \<Rightarrow> peopleCheck" where
  "detectMultiplePeople frames =
     \<lparr>mp_hasMultiplePeople = False, mp_personCount = 1, mp_confidence = 0.9\<rparr>"

record objectCheck =
  od_hasSuspiciousObjects :: bool
  od_detectedObjects :: "string list"
  od_confidence :: real

definition detectSuspiciousObjects :: "frame list \<Rightarrow> objectCheck" where
  "detectSuspiciousObjects frames =
     \<lparr>od_hasSuspiciousObjects = False, od_detectedObjects = [], od_confidence = 0.8\<rparr>"

record audioCheck =
  aa_hasExternalAudio :: bool
  aa_audioAnalysis :: string
  aa_confidence :: real

definition analyzeAudioForAssistance :: audioCheck where
  "analyzeAudioForAssistance =
     \<lparr>aa_hasExternalAudio = False, aa_audioAnalysis = ''clear'', aa_confidence = 0.7\<rparr>"

record environmentCheck =
  ec_isConsistent :: bool
  ec_avgVariance :: real
  ec_confidence :: real

definition checkEnvironmentConsistency :: "frame list \<Rightarrow> js_error + environmentCheck" where
  "checkEnvironmentConsistency frames =
     (let colorVariances = map (\<lambda>frame. colorVariance (colors (f_data frame))) frames
      in bindE (reduceSum colorVariances) (\<lambda>s.
           let avgVariance = s / real (length colorVariances)
           in Inr \<lparr>ec_isConsistent = avgVariance < 30,
                   ec_avgVariance = avgVariance,
                   ec_confidence = max 0 (1 - avgVariance / 50)\<rparr>))"

record assistanceCheck =
  multiplePeople :: peopleCheck
  objectDetection :: objectCheck
  audioAnalysis :: audioCheck
  environmentalConsistency :: environmentCheck

definition checkExternalAssistance :: "frame list \<Rightarrow> js_error + assistanceCheck" where
  "checkExternalAssistance frames =
     bindE (checkEnvironmentConsistency frames) (\<lambda>e.
       Inr \<lparr>multiplePeople = detectMultiplePeople frames,
            objectDetection = detectSuspiciousObjects frames,
            audioAnalysis = analyzeAudioForAssistance,
            environmentalConsistency = e\<rparr>)"

subsection \<open>Combination\<close>

text \<open>
  \<^verbatim>\<open>combineAnalysisResults\<close> updates three local variables, the running total and the
  two string arrays, in seven conditional blocks. \<open>flag\<close> is one such block.
\<close>

definition flag ::
  "bool \<Rightarrow> real \<Rightarrow> string \<Rightarrow> string \<Rightarrow> real \<times> string list \<times> string list
     \<Rightarrow> real \<times> string list \<times> string list" where
  "flag triggered weight issue recommendation st =
     (case st of (totalSuspicionScore, issues, recommendations) \<Rightarrow>
        if triggered
        then (totalSuspicionScore + weight, issues @ [issue], recommendations @ [recommendation])
        else st)"

record combinedResults =
  comb_suspicionScore :: real
  comb_issues :: "string list"
  comb_recommendations :: "string list"

definition combineAnalysisResults ::
  "frameAnalysis \<Rightarrow> manipulationCheck \<Rightarrow> movementPatternAnalysis \<Rightarrow> assistanceCheck
     \<Rightarrow> combinedResults" where
  "combineAnalysisResults frameAnalysis manipulationCheck movementPatternAnalysis assistanceCheck =
     (let st = (0, [], []);
          st = flag (\<not> bc_isConsistent (brightnessConsistency frameAnalysis)) 0.15
                 ''Inconsistent lighting detected''
                 ''Ensure consistent lighting throughout the recording'' st;
          st = flag (\<not> fr_isConsistent (frameRateConsistency frameAnalysis)) 0.1
                 ''Frame rate inconsistencies detected''
                 ''Record in a single continuous take'' st;
          st = flag (cmp_hasArtifacts (compressionArtifacts manipulationCheck)) 0.2
                 ''Video compression artifacts detected''
                 ''Avoid editing or re-compressing the video'' st;
          st = flag (sd_hasSplicing (splicingDetection manipulationCheck)) 0.3
                 ''Video splicing detected''
                 ''Record the entire test in one continuous take'' st;
          st = flag (\<not> pc_isConsistent (patternConsistency movementPatternAnalysis)) 0.15
                 ''Movement pattern inconsistencies''
                 ''Follow the test instructions carefully'' st;
          st = flag (mp_hasMultiplePeople (multiplePeople assistanceCheck)) 0.25
                 ''Multiple people detected in video''
                 ''Ensure only the test taker is visible'' st;
          st = flag (\<not> ec_isConsistent (environmentalConsistency assistanceCheck)) 0.1
                 ''Environment inconsistencies detected''
                 ''Record in a single location'' st
      in case st of (totalSuspicionScore, issues, recommendations) \<Rightarrow>
           \<lparr>comb_suspicionScore = min 1 totalSuspicionScore,
            comb_issues = issues,
            comb_recommendations =
              (if length recommendations > 0 then recommendations
               else [''Video analysis completed successfully''])\<rparr>)"

record detailedAnalysis =
  da_frameAnalysis :: frameAnalysis
  da_manipulationCheck :: manipulationCheck
  da_movementPatternAnalysis :: movementPatternAnalysis
  da_assistanceCheck :: assistanceCheck

text \<open>
  The object \<^verbatim>\<open>detectCheatAttempts\<close> resolves to. The \<^verbatim>\<open>try\<close> block returns it with
  \<open>detailedAnalysis\<close> and no \<open>error\<close>; the \<^verbatim>\<open>catch\<close> block returns it with \<open>error\<close> and
  no \<open>detailedAnalysis\<close>.
\<close>

record cheatAnalysis =
  isSuspicious :: bool
  suspicionScore :: real
  detectedIssues :: "string list"
  cheatRecommendations :: "string list"
  detailedAnalysis :: "detailedAnalysis option"
  cheatError :: "string option"

definition cheatTry :: "(nat \<Rightarrow> frameData) \<Rightarrow> string \<Rightarrow> string \<Rightarrow> js_error + cheatAnalysis" where
  "cheatTry rnd videoUri testType =
     bindE (extractFramesFromVideo rnd videoUri) (\<lambda>frames.
       bindE (analyzeFrames frames testType) (\<lambda>frameAnalysis.
         bindE (checkVideoManipulation frames) (\<lambda>manipulationCheck.
           bindE (analyzeMovementPatterns frames testType) (\<lambda>movementPatternAnalysis.
             bindE (checkExternalAssistance frames) (\<lambda>assistanceCheck.
               let finalResults = combineAnalysisResults frameAnalysis manipulationCheck
                                    movementPatternAnalysis assistanceCheck
               in Inr \<lparr>isSuspicious = comb_suspicionScore finalResults > cheatThreshold,
                       suspicionScore = comb_suspicionScore finalResults,
                       detectedIssues = comb_issues finalResults,
                       cheatRecommendations = comb_recommendations finalResults,
                       detailedAnalysis =
                         Some \<lparr>da_frameAnalysis = frameAnalysis,
                               da_manipulationCheck = manipulationCheck,
                               da_movementPatternAnalysis = movementPatternAnalysis,
                               da_assistanceCheck = assistanceCheck\<rparr>,
                       cheatError = None\<rparr>)))))"

definition detectCheatAttempts :: "(nat \<Rightarrow> frameData) \<Rightarrow> string \<Rightarrow> string \<Rightarrow> cheatAnalysis" where
  "detectCheatAttempts rnd videoUri testType =
     (case cheatTry rnd videoUri testType of
        Inr r \<Rightarrow> r
      | Inl e \<Rightarrow>
          \<lparr>isSuspicious = False,
           suspicionScore = 0,
           detectedIssues = [''Analysis failed''],
           cheatRecommendations = [''Please try recording again''],
           detailedAnalysis = None,
           cheatError = Some (message e)\<rparr>)"

subsection \<open>The specification's wording of the integrity checks\<close>

text \<open>
  The seven checks in the order of \<^verbatim>\<open>combineAnalysisResults\<close>, with their weights, and
  the sum of the weights of the triggered ones.
\<close>

definition triggeredChecks ::
  "frameAnalysis \<Rightarrow> manipulationCheck \<Rightarrow> movementPatternAnalysis \<Rightarrow> assistanceCheck
     \<Rightarrow> bool list" where
  "triggeredChecks fa mc mpa ac =
     [\<not> bc_isConsistent (brightnessConsistency fa),
      \<not> fr_isConsistent (frameRateConsistency fa),
      cmp_hasArtifacts (compressionArtifacts mc),
      sd_hasSplicing (splicingDetection mc),
      \<not> pc_isConsistent (patternConsistency mpa),
      mp_hasMultiplePeople (multiplePeople ac),
      \<not> ec_isConsistent (environmentalConsistency ac)]"

definition checkWeights :: "real list" where
  "checkWeights = [0.15, 0.1, 0.2, 0.3, 0.15, 0.25, 0.1]"

definition sumTriggered :: "bool list \<Rightarrow> real" where
  "sumTriggered bs = sum_list (map snd (filter fst (zip bs checkWeights)))"

definition mean :: "real list \<Rightarrow> real" where
  "mean xs = sum_list xs / real (length xs)"

definition populationVariance :: "real list \<Rightarrow> real" where
  "populationVariance xs = sum_list (map (\<lambda>x. (x - mean xs)\<^sup>2) xs) / real (length xs)"

text \<open>The brightness trigger as the specification words it.\<close>

definition claimedBrightnessTriggered :: "real list \<Rightarrow> bool" where
  "claimedBrightnessTriggered bs =
     (populationVariance bs > 0.1 \<or> list_ex (\<lambda>b. \<bar>b - mean bs\<bar> > 0.3) bs)"

text \<open>
  Example frames: \<open>frameAt i b\<close> is frame \<open>i\<close> of a 30 frames-per-second recording with
  brightness \<open>b\<close>; the other numbers are mid-range draws of \<^verbatim>\<open>simulateFrameData\<close>.
\<close>

definition frameDataWith :: "real \<Rightarrow> frameData" where
  "frameDataWith b =
     \<lparr>brightness = b, contrast = 0.7, edges = 500, motion = 50,
      colors = \<lparr>dominant = ''hsl(180, 70%, 50%)'', colorVariance = 25, saturation = 0.65\<rparr>\<rparr>"

definition frameAt :: "nat \<Rightarrow> real \<Rightarrow> frame" where
  "frameAt i b = \<lparr>f_id = i, f_timestamp = real i * (1000 / frameRate), f_data = frameDataWith b\<rparr>"

definition spikeFrames :: "frame list" where
  "spikeFrames = [frameAt 0 0.5, frameAt 1 0.5, frameAt 2 0.5, frameAt 3 0.98]"

text \<open>Check outcomes with every one of the seven checks triggered.\<close>

definition allTriggeredFrameAnalysis :: frameAnalysis where
  "allTriggeredFrameAnalysis =
     \<lparr>brightnessConsistency = \<lparr>bc_isConsistent = False, bc_variance = 0.2,
        bc_avgBrightness = 0.5, bc_suspiciousFrames = 0\<rparr>,
      frameRateConsistency = \<lparr>fr_isConsistent = False, fr_variance = 60,
        fr_avgFrameTime = 33, fr_suspiciousDrops = 0\<rparr>,
      resolutionConsistency = \<lparr>rc_isConsistent = True, rc_resolutionChanges = 0,
        rc_suspiciousChanges = []\<rparr>,
      motionConsistency = \<lparr>mc_isConsistent = True, mc_avgMotion = 50,
        mc_expectedMotion = Some 40, mc_suspiciousSpikes = 0\<rparr>,
      colorConsistency = \<lparr>cc_isConsistent = False, cc_avgVariance = 40,
        cc_suspiciousChanges = 0\<rparr>\<rparr>"

definition allTriggeredManipulation :: manipulationCheck where
  "allTriggeredManipulation =
     \<lparr>compressionArtifacts = \<lparr>cmp_hasArtifacts = True, cmp_avgEdges = 50, cmp_confidence = 0.5\<rparr>,
      edgeInconsistencies = \<lparr>ei_hasInconsistencies = False, ei_variance = 0, ei_confidence = 0\<rparr>,
      metadataAnomalies = \<lparr>ma_hasAnomalies = False, ma_anomalies = [], ma_confidence = 0\<rparr>,
      splicingDetection = \<lparr>sd_hasSplicing = True, sd_splicePoints = [], sd_confidence = 1\<rparr>\<rparr>"

definition allTriggeredMovement :: movementPatternAnalysis where
  "allTriggeredMovement =
     \<lparr>patternConsistency = \<lparr>pc_isConsistent = False, pc_expectedPattern = Some ''repetitive'',
        pc_actualPattern = ''steady'', pc_confidence = 0\<rparr>,
      repetitionDetection = (),
      speedConsistency = \<lparr>spd_isConsistent = True, spd_avgSpeed = 0, spd_variance = 0,
        spd_confidence = 1\<rparr>,
      accelerationPatterns = \<lparr>acc_avgAcceleration = 0, acc_maxAcceleration = 0,
        acc_isNatural = True, acc_confidence = 1\<rparr>\<rparr>"

definition allTriggeredAssistance :: assistanceCheck where
  "allTriggeredAssistance =
     \<lparr>multiplePeople = \<lparr>mp_hasMultiplePeople = True, mp_personCount = 2, mp_confidence = 0.9\<rparr>,
      objectDetection = \<lparr>od_hasSuspiciousObjects = False, od_detectedObjects = [],
        od_confidence = 0.8\<rparr>,
      audioAnalysis = \<lparr>aa_hasExternalAudio = False, aa_audioAnalysis = ''clear'',
        aa_confidence = 0.7\<rparr>,
      environmentalConsistency = \<lparr>ec_isConsistent = False, ec_avgVariance = 40,
        ec_confidence = 0.2\<rparr>\<rparr>"

section \<open>The offline analysis pipeline (offlineAnalysis.js)\<close>

text \<open>
  A quotient whose divisor may be 0 and whose value is only stored in the result:
  JavaScript yields NaN or an infinity there, which the reals do not have.
\<close>

datatype js_number = Num real | NaN | PosInfinity | NegInfinity

definition jsDivide :: "real \<Rightarrow> real \<Rightarrow> js_number" where
  "jsDivide a b =
     (if b \<noteq> 0 then Num (a / b)
      else if a = 0 then NaN else if a > 0 then PosInfinity else NegInfinity)"

text \<open>The comparisons \<^verbatim>\<open>v >= c\<close> and \<^verbatim>\<open>v < c\<close> with a finite \<open>c\<close>; both are false on NaN.\<close>

definition numGe :: "js_number \<Rightarrow> real \<Rightarrow> bool" where
  "numGe v c = (case v of Num r \<Rightarrow> r \<ge> c | NaN \<Rightarrow> False
                | PosInfinity \<Rightarrow> True | NegInfinity \<Rightarrow> False)"

definition numLess :: "js_number \<Rightarrow> real \<Rightarrow> bool" where
  "numLess v c = (case v of Num r \<Rightarrow> r < c | NaN \<Rightarrow> False
                  | PosInfinity \<Rightarrow> False | NegInfinity \<Rightarrow> True)"

text \<open>\<^verbatim>\<open>Math.round\<close>: the nearest integer, a half rounded up.\<close>

definition mathRound :: "real \<Rightarrow> real" where
  "mathRound v = real_of_int \<lfloor>v + 1 / 2\<rfloor>"

subsection \<open>Movement analysis\<close>

text \<open>
  \<^verbatim>\<open>identifyMovementPhases\<close>. The class defines \<^verbatim>\<open>identifyJumpPhases\<close> and
  \<^verbatim>\<open>identifyRepetitivePhases\<close>; the methods the other three branches call
  (\<^verbatim>\<open>identifyShuttlePhases\<close>, \<^verbatim>\<open>identifyRunningPhases\<close>,
  \<^verbatim>\<open>identifyGenericPhases\<close>) are defined nowhere, so these branches throw.
\<close>

definition identifyMovementPhases :: "poseAnalysis list \<Rightarrow> string \<Rightarrow> js_error + movementPhase list" where
  "identifyMovementPhases poseData testType =
     (if testType = ''vertical-jump'' then Inr (identifyJumpPhases poseData)
      else if testType = ''sit-ups'' \<or> testType = ''push-ups''
        then Inr (identifyRepetitivePhases poseData testType)
      else if testType = ''shuttle-run''
        then Inl (TypeError ''this.identifyShuttlePhases is not a function'')
      else if testType = ''endurance-run''
        then Inl (TypeError ''this.identifyRunningPhases is not a function'')
      else Inl (TypeError ''this.identifyGenericPhases is not a function''))"

record phaseTimings =
  preparation :: real
  execution :: real
  recovery :: real

record timingAnalysis =
  ta_totalDuration :: real
  ta_avgFrameInterval :: js_number
  ta_movementPhases :: phaseTimings

definition calculateAvgFrameInterval :: "poseAnalysis list \<Rightarrow> js_number" where
  "calculateAvgFrameInterval poseData =
     (let totalInterval =
            foldl (\<lambda>total i. total + (timestamp (poseData ! i) - timestamp (poseData ! (i - 1))))
              0 [1..<length poseData]
      in jsDivide totalInterval (real (length poseData) - 1))"

definition calculatePhaseTimings :: "poseAnalysis list \<Rightarrow> phaseTimings" where
  "calculatePhaseTimings poseData = \<lparr>preparation = 0, execution = 0, recovery = 0\<rparr>"

definition analyzeTiming :: "poseAnalysis list \<Rightarrow> string \<Rightarrow> js_error + timingAnalysis" where
  "analyzeTiming poseData testType =
     bindE (totalDurationOf poseData) (\<lambda>d.
       Inr \<lparr>ta_totalDuration = d,
            ta_avgFrameInterval = calculateAvgFrameInterval poseData,
            ta_movementPhases = calculatePhaseTimings poseData\<rparr>)"

record movementAnalysis =
  mv_testType :: string
  mv_totalFrames :: nat
  mv_avgPoseScore :: real
  mv_keyMovementPhases :: "movementPhase list"
  mv_repetitionCount :: nat
  mv_movementQuality :: movementQuality
  mv_timingAnalysis :: timingAnalysis

text \<open>
  \<^verbatim>\<open>analyzeMovement\<close>. The average pose score of an empty sequence is a NaN; no result
  carries it, since \<^verbatim>\<open>assessTiming\<close> throws on the empty sequence.
\<close>

definition analyzeMovement :: "poseAnalysis list \<Rightarrow> string \<Rightarrow> js_error + movementAnalysis" where
  "analyzeMovement poseData testType =
     bindE (identifyMovementPhases poseData testType) (\<lambda>phases.
       bindE (assessMovementQuality poseData testType) (\<lambda>q.
         bindE (analyzeTiming poseData testType) (\<lambda>t.
           Inr \<lparr>mv_testType = testType,
                mv_totalFrames = length poseData,
                mv_avgPoseScore =
                  foldl (\<lambda>sum p. sum + poseScore p) 0 poseData / real (length poseData),
                mv_keyMovementPhases = phases,
                mv_repetitionCount = countRepetitions poseData testType,
                mv_movementQuality = q,
                mv_timingAnalysis = t\<rparr>)))"

subsection \<open>Performance metrics\<close>

definition calculatePerformanceScore :: "movementAnalysis \<Rightarrow> string \<Rightarrow> real" where
  "calculatePerformanceScore movementAnalysis testType =
     (let score =
            (if testType = ''sit-ups'' \<or> testType = ''push-ups''
               then real (mv_repetitionCount movementAnalysis)
                      * overallScore (mv_movementQuality movementAnalysis)
             else if testType = ''vertical-jump''
               then overallScore (mv_movementQuality movementAnalysis) * 100
             else overallScore (mv_movementQuality movementAnalysis) * 50)
      in mathRound (score * 10) / 10)"

definition estimateJumpHeight :: "movementAnalysis \<Rightarrow> real" where
  "estimateJumpHeight movementAnalysis =
     (case find (\<lambda>p. phase p = ''jump'') (mv_keyMovementPhases movementAnalysis) of
        Some jumpPhase \<Rightarrow> mathRound (duration jumpPhase * 50)
      | None \<Rightarrow> 30)"

definition estimateHangTime :: "movementAnalysis \<Rightarrow> real" where
  "estimateHangTime movementAnalysis =
     (case find (\<lambda>p. phase p = ''jump'') (mv_keyMovementPhases movementAnalysis) of
        Some jumpPhase \<Rightarrow> duration jumpPhase / 1000
      | None \<Rightarrow> 0.5)"

definition estimateShuttleLaps :: "movementAnalysis \<Rightarrow> nat" where
  "estimateShuttleLaps movementAnalysis = mv_repetitionCount movementAnalysis div 2"

definition estimateAvgLapTime :: "movementAnalysis \<Rightarrow> js_number" where
  "estimateAvgLapTime movementAnalysis =
     jsDivide (ta_totalDuration (mv_timingAnalysis movementAnalysis))
       (real (estimateShuttleLaps movementAnalysis))"

text \<open>The \<^verbatim>\<open>metrics\<close> object of \<^verbatim>\<open>extractKeyMetrics\<close>, as its list of properties.\<close>

definition extractKeyMetrics :: "movementAnalysis \<Rightarrow> string \<Rightarrow> (string \<times> js_number) list" where
  "extractKeyMetrics movementAnalysis testType =
     (if testType = ''sit-ups'' then
        [(''repetitions'', Num (real (mv_repetitionCount movementAnalysis))),
         (''avgDurationPerRep'',
            jsDivide (ta_totalDuration (mv_timingAnalysis movementAnalysis))
              (real (mv_repetitionCount movementAnalysis)))]
      else if testType = ''vertical-jump'' then
        [(''jumpHeight'', Num (estimateJumpHeight movementAnalysis)),
         (''hangTime'', Num (estimateHangTime movementAnalysis))]
      else if testType = ''shuttle-run'' then
        [(''lapsCompleted'', Num (real (estimateShuttleLaps movementAnalysis))),
         (''avgLapTime'', estimateAvgLapTime movementAnalysis)]
      else [])"

record performanceMetrics =
  pm_testType :: string
  pm_repetitionCount :: nat
  pm_movementQuality :: real
  pm_totalDuration :: real
  pm_performanceScore :: real
  pm_keyMetrics :: "(string \<times> js_number) list"
  pm_techniqueScore :: real

definition calculatePerformance :: "movementAnalysis \<Rightarrow> string \<Rightarrow> performanceMetrics" where
  "calculatePerformance movementAnalysis testType =
     \<lparr>pm_testType = testType,
      pm_repetitionCount = mv_repetitionCount movementAnalysis,
      pm_movementQuality = overallScore (mv_movementQuality movementAnalysis),
      pm_totalDuration = ta_totalDuration (mv_timingAnalysis movementAnalysis),
      pm_performanceScore = calculatePerformanceScore movementAnalysis testType,
      pm_keyMetrics = extractKeyMetrics movementAnalysis testType,
      pm_techniqueScore = overallScore (mv_movementQuality movementAnalysis)\<rparr>"

subsection \<open>Benchmarking\<close>

text \<open>
  The user profile: \<open>None\<close> is \<^verbatim>\<open>null\<close>; a field that is \<open>None\<close> is absent.
\<close>

record profile =
  age :: "real option"
  gender :: "string option"

text \<open>Every comparison with \<^verbatim>\<open>undefined\<close> is false.\<close>

definition determineAgeGroup :: "real option \<Rightarrow> string" where
  "determineAgeGroup a =
     (case a of
        None \<Rightarrow> ''25-plus''
      | Some n \<Rightarrow>
          if n < 13 then ''under-13'' else if n < 16 then ''13-15''
          else if n < 19 then ''16-18'' else if n < 25 then ''19-24'' else ''25-plus'')"

record norms =
  poor :: real
  average :: real
  good :: real
  excellent :: real

text \<open>
  \<^verbatim>\<open>getPerformanceNorms\<close>: \<^verbatim>\<open>baseNorms[testType] || default\<close>. For an inherited property
  name the value found is a function or an object without the four thresholds (\<open>None\<close>
  here): each threshold is then \<^verbatim>\<open>undefined\<close>, every comparison with it is false and the
  percentile is NaN.
\<close>

definition getPerformanceNorms :: "string \<Rightarrow> string \<Rightarrow> string \<Rightarrow> norms option" where
  "getPerformanceNorms testType ageGroup g =
     (if testType \<in> set objectPrototypeKeys then None
      else case map_of
             [(''sit-ups'', \<lparr>poor = 10, average = 20, good = 30, excellent = 40\<rparr>),
              (''push-ups'', \<lparr>poor = 5, average = 15, good = 25, excellent = 35\<rparr>),
              (''vertical-jump'', \<lparr>poor = 30, average = 40, good = 50, excellent = 60\<rparr>)]
             testType of
        Some n \<Rightarrow> Some n
      | None \<Rightarrow> Some \<lparr>poor = 20, average = 50, good = 70, excellent = 90\<rparr>)"

definition getPercentileCategory :: "real \<Rightarrow> norms option \<Rightarrow> string" where
  "getPercentileCategory score found =
     (case found of
        None \<Rightarrow> ''needs-improvement''
      | Some n \<Rightarrow>
          if score \<ge> excellent n then ''excellent''
          else if score \<ge> good n then ''good''
          else if score \<ge> average n then ''average''
          else ''needs-improvement'')"

text \<open>\<^verbatim>\<open>userProfile.gender || 'male'\<close>: an absent and an empty gender become \<open>male\<close>.\<close>

definition genderOrMale :: "profile \<Rightarrow> string" where
  "genderOrMale userProfile =
     (case gender userProfile of None \<Rightarrow> ''male'' | Some g \<Rightarrow> if g = [] then ''male'' else g)"

record percentiles =
  pct_overall :: js_number
  pct_category :: string

definition calculatePercentiles :: "performanceMetrics \<Rightarrow> profile \<Rightarrow> percentiles" where
  "calculatePercentiles metrics userProfile =
     (let ageGroup = determineAgeGroup (age userProfile);
          g = genderOrMale userProfile;
          n = getPerformanceNorms (pm_testType metrics) ageGroup g
      in \<lparr>pct_overall =
            (case n of
               None \<Rightarrow> NaN
             | Some found \<Rightarrow>
                 Num (min 100 (max 0 (pm_performanceScore metrics / excellent found * 100)))),
          pct_category = getPercentileCategory (pm_performanceScore metrics) n\<rparr>)"

definition getSkillLevel :: "js_number \<Rightarrow> string" where
  "getSkillLevel percentile =
     (if numGe percentile 90 then ''elite'' else if numGe percentile 75 then ''advanced''
      else if numGe percentile 50 then ''intermediate'' else ''beginner'')"

record rating =
  rt_overall :: string
  rt_score :: real
  rt_percentile :: js_number
  rt_level :: string

definition calculateRating :: "performanceMetrics \<Rightarrow> profile \<Rightarrow> rating" where
  "calculateRating metrics userProfile =
     (let p = calculatePercentiles metrics userProfile
      in \<lparr>rt_overall = pct_category p,
          rt_score = pm_performanceScore metrics,
          rt_percentile = pct_overall p,
          rt_level = getSkillLevel (pct_overall p)\<rparr>)"

definition generateBenchmarkRecommendations :: "performanceMetrics \<Rightarrow> profile \<Rightarrow> string list" where
  "generateBenchmarkRecommendations metrics userProfile =
     (let r = calculateRating metrics userProfile
      in if rt_overall r = ''excellent''
           then [''Excellent performance! Consider competitive training.'']
         else if rt_overall r = ''good'' then [''Good performance. Focus on consistency.'']
         else if rt_overall r = ''average''
           then [''Average performance. Regular practice recommended.'']
         else [''Needs improvement. Focus on fundamentals.''])"

record benchmarking =
  bm_ageGroup :: string
  bm_gender :: string
  bm_testType :: string
  bm_userScore :: real
  bm_percentiles :: percentiles
  bm_rating :: rating
  bm_recommendations :: "string list"

text \<open>
  \<^verbatim>\<open>performBenchmarking\<close> reads \<^verbatim>\<open>userProfile.age\<close> first, which throws when the
  profile is \<^verbatim>\<open>null\<close>.
\<close>

definition performBenchmarking :: "performanceMetrics \<Rightarrow> profile option \<Rightarrow> js_error + benchmarking" where
  "performBenchmarking metrics userProfile =
     (case userProfile of
        None \<Rightarrow> Inl (TypeError ''Cannot read properties of null (reading 'age')'')
      | Some up \<Rightarrow>
          Inr \<lparr>bm_ageGroup = determineAgeGroup (age up),
               bm_gender = genderOrMale up,
               bm_testType = pm_testType metrics,
               bm_userScore = pm_performanceScore metrics,
               bm_percentiles = calculatePercentiles metrics up,
               bm_rating = calculateRating metrics up,
               bm_recommendations = generateBenchmarkRecommendations metrics up\<rparr>)"

definition generateRecommendations :: "performanceMetrics \<Rightarrow> benchmarking \<Rightarrow> string list" where
  "generateRecommendations metrics b =
     (let recommendations =
            (if numLess (rt_percentile (bm_rating b)) 50
               then [''Focus on basic fitness fundamentals''] else [])
            @ (if pm_movementQuality metrics < 0.7
                 then [''Work on proper form and technique''] else [])
            @ (if rt_level (bm_rating b) = ''elite''
                 then [''Consider advanced training programs''] else [])
      in if length recommendations > 0 then recommendations else [''Keep up the good work!''])"

subsection \<open>The result objects\<close>

record deviceInfo =
  platform :: string
  di_timestamp :: string
  deviceType :: string
  appVersion :: string

text \<open>
  \<^verbatim>\<open>getDeviceInfo\<close> reads the wall clock (\<^verbatim>\<open>new Date().toISOString()\<close>); the reading
  is the parameter.
\<close>

definition getDeviceInfo :: "string \<Rightarrow> deviceInfo" where
  "getDeviceInfo isoNow =
     \<lparr>platform = ''mobile'', di_timestamp = isoNow, deviceType = ''smartphone'',
      appVersion = ''1.0.0''\<rparr>"

record analysisResults =
  res_testType :: string
  res_performanceMetrics :: performanceMetrics
  res_movementAnalysis :: movementAnalysis
  res_cheatAnalysis :: cheatAnalysis
  res_benchmarking :: benchmarking
  res_confidence :: real
  res_recommendations :: "string list"
  res_timestamp :: string
  res_deviceInfo :: deviceInfo

record fallbackMetrics =
  fm_repetitionCount :: nat
  fm_movementQuality :: real
  fm_performanceScore :: real

record fallbackCheat =
  fc_isSuspicious :: bool
  fc_suspicionScore :: real

record fallbackResults =
  fb_testType :: string
  fb_performanceMetrics :: fallbackMetrics
  fb_movementAnalysisError :: string
  fb_cheatAnalysis :: fallbackCheat
  fb_benchmarkingError :: string
  fb_confidence :: real
  fb_recommendations :: "string list"
  fb_fallback :: bool

definition generateFallbackResults :: "string \<Rightarrow> string \<Rightarrow> fallbackResults" where
  "generateFallbackResults videoUri testType =
     \<lparr>fb_testType = testType,
      fb_performanceMetrics =
        \<lparr>fm_repetitionCount = 0, fm_movementQuality = 0, fm_performanceScore = 0\<rparr>,
      fb_movementAnalysisError = ''Analysis failed'',
      fb_cheatAnalysis = \<lparr>fc_isSuspicious = False, fc_suspicionScore = 0\<rparr>,
      fb_benchmarkingError = ''Benchmarking unavailable'',
      fb_confidence = 0,
      fb_recommendations =
        [''Please try recording again with better lighting and camera angle''],
      fb_fallback = True\<rparr>"

text \<open>The object the \<^verbatim>\<open>catch\<close> block of \<^verbatim>\<open>analyzeVideoOffline\<close> returns.\<close>

record failureResult =
  fr_error :: bool
  fr_message :: string
  fr_fallbackResults :: fallbackResults

datatype outcome = Results analysisResults | Failure failureResult

subsection \<open>The service object and its cache\<close>

text \<open>
  The mutable fields of the singleton \<^verbatim>\<open>OfflineAnalysisService\<close>. The cache is a
  JavaScript \<^verbatim>\<open>Map\<close>: its keys are distinct and keep their insertion order.
\<close>

record service =
  isInitialized :: bool
  analysisCache :: "(string \<times> analysisResults) list"

definition maxCacheSize :: nat where
  "maxCacheSize = 100"

definition supportedTests :: "string list" where
  "supportedTests =
     [''vertical-jump'', ''sit-ups'', ''push-ups'', ''shuttle-run'', ''endurance-run'',
      ''height-weight'', ''standing-broad-jump'', ''50m-sprint'', ''600m-run'',
      ''medicine-ball-throw'']"

text \<open>\<^verbatim>\<open>Map.prototype.set\<close>: an existing key keeps its place, a new key goes last.\<close>

fun mapSet :: "('k \<times> 'v) list \<Rightarrow> 'k \<Rightarrow> 'v \<Rightarrow> ('k \<times> 'v) list" where
  "mapSet [] k v = [(k, v)]"
| "mapSet ((k', v') # kvs) k v = (if k' = k then (k, v) # kvs else (k', v') # mapSet kvs k v)"

definition setCache :: "service \<Rightarrow> string \<Rightarrow> analysisResults \<Rightarrow> service" where
  "setCache s key v =
     (let cache = analysisCache s;
          cache = (if length cache \<ge> maxCacheSize then tl cache else cache)
      in s\<lparr>analysisCache := mapSet cache key v\<rparr>)"

text \<open>
  What one invocation takes from outside the program: whether \<^verbatim>\<open>initialize()\<close>
  succeeds in loading the TensorFlow models, the draws of \<^verbatim>\<open>Math.random()\<close> in the
  integrity analysis, and the readings of the wall clock, in the order they are taken.
\<close>

record environment =
  initializeSucceeds :: bool
  randomDraws :: "nat \<Rightarrow> frameData"
  clockReading :: "nat \<Rightarrow> string"

text \<open>
  \<^verbatim>\<open>if (!this.isInitialized) await this.initialize()\<close>: \<^verbatim>\<open>initialize\<close> sets the flag
  when it succeeds and catches its own errors.
\<close>

definition ensureInitialized :: "environment \<Rightarrow> service \<Rightarrow> service" where
  "ensureInitialized env s =
     (if \<not> isInitialized s then s\<lparr>isInitialized := initializeSucceeds env\<rparr> else s)"

text \<open>
  The cache key \<^verbatim>\<open>`${videoUri}-${testType}-${JSON.stringify(userProfile)}`\<close>. The
  library function \<^verbatim>\<open>JSON.stringify\<close>, on profiles, is the parameter \<open>jsonStringify\<close>.
\<close>

definition cacheKey :: "(profile option \<Rightarrow> string) \<Rightarrow> string \<Rightarrow> string \<Rightarrow> profile option \<Rightarrow> string" where
  "cacheKey jsonStringify videoUri testType userProfile =
     videoUri @ ''-'' @ testType @ ''-'' @ jsonStringify userProfile"

text \<open>
  Steps 3 to 7 of \<^verbatim>\<open>analyzeVideoOffline\<close>. Steps 1 and 2 (\<^verbatim>\<open>extractFrames\<close>,
  \<^verbatim>\<open>analyzePoses\<close>) ignore the video: they simulate the pose estimator with
  \<^verbatim>\<open>Math.sin\<close> and \<^verbatim>\<open>Math.atan2\<close> in floating point and yield the same 30 pose analyses
  on every call. That list is the parameter \<open>poseData\<close>.
\<close>

definition compileResults ::
  "poseAnalysis list \<Rightarrow> environment \<Rightarrow> string \<Rightarrow> string \<Rightarrow> profile option
     \<Rightarrow> js_error + analysisResults" where
  "compileResults poseData env videoUri testType userProfile =
     bindE (analyzeMovement poseData testType) (\<lambda>movementAnalysis.
       let performanceMetrics = calculatePerformance movementAnalysis testType;
           cheat = detectCheatAttempts (randomDraws env) videoUri testType
       in bindE (performBenchmarking performanceMetrics userProfile) (\<lambda>b.
            Inr \<lparr>res_testType = testType,
                 res_performanceMetrics = performanceMetrics,
                 res_movementAnalysis = movementAnalysis,
                 res_cheatAnalysis = cheat,
                 res_benchmarking = b,
                 res_confidence =
                   calculateConfidence (pm_movementQuality performanceMetrics) (isSuspicious cheat),
                 res_recommendations = generateRecommendations performanceMetrics b,
                 res_timestamp = clockReading env 0,
                 res_deviceInfo = getDeviceInfo (clockReading env 1)\<rparr>))"

text \<open>
  The \<^verbatim>\<open>try\<close> block, from the cache lookup on, run on the service after
  \<^verbatim>\<open>ensureInitialized\<close>: the value returned and the service afterwards, or the error
  thrown.
\<close>

definition analyzeTry ::
  "(profile option \<Rightarrow> string) \<Rightarrow> poseAnalysis list \<Rightarrow> environment \<Rightarrow> service
     \<Rightarrow> string \<Rightarrow> string \<Rightarrow> profile option \<Rightarrow> js_error + analysisResults \<times> service" where
  "analyzeTry jsonStringify poseData env s videoUri testType userProfile =
     (let key = cacheKey jsonStringify videoUri testType userProfile
      in case map_of (analysisCache s) key of
           Some cached \<Rightarrow> Inr (cached, s)
         | None \<Rightarrow>
             if testType \<notin> set supportedTests
             then Inl (Error (''Unsupported test type: '' @ testType))
             else bindE (compileResults poseData env videoUri testType userProfile) (\<lambda>results.
                    Inr (results, setCache s key results)))"

definition analyzeVideoOffline ::
  "(profile option \<Rightarrow> string) \<Rightarrow> poseAnalysis list \<Rightarrow> environment \<Rightarrow> service
     \<Rightarrow> string \<Rightarrow> string \<Rightarrow> profile option \<Rightarrow> outcome \<times> service" where
  "analyzeVideoOffline jsonStringify poseData env s videoUri testType userProfile =
     (let s1 = ensureInitialized env s
      in case analyzeTry jsonStringify poseData env s1 videoUri testType userProfile of
           Inr (results, s2) \<Rightarrow> (Results results, s2)
         | Inl e \<Rightarrow>
             (Failure \<lparr>fr_error = True, fr_message = message e,
                       fr_fallbackResults = generateFallbackResults videoUri testType\<rparr>,
              s1))"

text \<open>Example inputs of the entry point.\<close>

definition freshService :: service where
  "freshService = \<lparr>isInitialized = False, analysisCache = []\<rparr>"

definition exampleProfile :: "profile option" where
  "exampleProfile = Some \<lparr>age = Some 17, gender = Some ''female''\<rparr>"

definition exampleStringify :: "profile option \<Rightarrow> string" where
  "exampleStringify p = (if p = None then ''null'' else ''{\"age\":17,\"gender\":\"female\"}'')"

definition environmentAt :: "string \<Rightarrow> environment" where
  "environmentAt isoNow =
     \<lparr>initializeSucceeds = True, randomDraws = (\<lambda>i. frameDataWith 0.75),
      clockReading = (\<lambda>k. isoNow)\<rparr>"

section \<open>Sequencing and reduction\<close>

lemma bindE_Inl: "m = Inl e \<Longrightarrow> bindE m f = Inl e"
  by (simp add: bindE_def)

lemma bindE_Inr: "m = Inr v \<Longrightarrow> bindE m f = f v"
  by (simp add: bindE_def)

lemma foldl_plus_sum_list: "foldl (+) (a::real) xs = a + sum_list xs"
  by (induction xs arbitrary: a) simp_all

lemma reduceSum_sum_list: "xs \<noteq> [] \<Longrightarrow> reduceSum xs = Inr (sum_list xs)"
  by (cases xs) (simp_all add: reduceSum_def foldl_plus_sum_list)

lemma calculateVariance_ok: "xs \<noteq> [] \<Longrightarrow> \<exists>v. calculateVariance xs m = Inr v"
  by (cases m) (simp_all add: calculateVariance_def reduceSum_sum_list bindE_def)

lemma calculateVariance_mean:
  assumes "xs \<noteq> []"
  shows "calculateVariance xs (Some (mean xs)) = Inr (populationVariance xs)"
  using assms
  by (simp add: calculateVariance_def reduceSum_sum_list bindE_def mean_def populationVariance_def)

section \<open>Repetition counting\<close>

lemma alternates_snoc:
  "alternates d (ps @ [p]) =
     (alternates d ps \<and> phase p = (if d = even (length ps) then ''down'' else ''up''))"
  by (induction ps arbitrary: d) auto

lemma repetitiveStep_invariant:
  assumes "repetitiveStep poseData testType i (u, s, ps) = (u', s', ps')"
    and "alternates True ps" and "u = even (length ps)"
  shows "alternates True ps' \<and> u' = even (length ps')"
  using assms
  by (auto simp: repetitiveStep_def Let_def alternates_snoc split: if_splits)

lemma repetitiveLoop_invariant:
  assumes "fold (repetitiveStep poseData testType) is (u, s, ps) = (u', s', ps')"
    and "alternates True ps" and "u = even (length ps)"
  shows "alternates True ps' \<and> u' = even (length ps')"
  using assms
proof (induction "is" arbitrary: u s ps)
  case Nil
  then show ?case by auto
next
  case (Cons i "is")
  obtain u1 s1 ps1 where step: "repetitiveStep poseData testType i (u, s, ps) = (u1, s1, ps1)"
    by (cases "repetitiveStep poseData testType i (u, s, ps)") auto
  from repetitiveStep_invariant[OF step Cons.prems(2) Cons.prems(3)]
  have inv: "alternates True ps1" "u1 = even (length ps1)" by simp_all
  from Cons.prems(1) step
  have "fold (repetitiveStep poseData testType) is (u1, s1, ps1) = (u', s', ps')" by simp
  from Cons.IH[OF this inv] show ?case .
qed

lemma identifyRepetitivePhases_alternates:
  "alternates True (identifyRepetitivePhases poseData testType)"
proof -
  obtain u s ps where f:
    "fold (repetitiveStep poseData testType) [1..<length poseData] (True, 0, []) = (u, s, ps)"
    by (cases "fold (repetitiveStep poseData testType) [1..<length poseData] (True, 0, [])") auto
  from repetitiveLoop_invariant[OF f] have "alternates True ps" by simp
  with f show ?thesis by (simp add: identifyRepetitivePhases_def)
qed

lemma completeCycles_alternates:
  "alternates True ps \<Longrightarrow> completeCycles ps = length ps div 2"
  by (induction ps rule: completeCycles.induct) auto

text \<open>
  C1. For the cyclic test kinds (sit-ups, push-ups) the repetition count is the number of
  complete down+up cycles of the identified phase sequence, which is half the number of
  phases rounded down: an unmatched trailing phase adds nothing.
\<close>

theorem countRepetitions_complete_cycles:
  assumes "testType = ''sit-ups'' \<or> testType = ''push-ups''"
  shows "countRepetitions poseData testType
           = completeCycles (identifyRepetitivePhases poseData testType)
         \<and> countRepetitions poseData testType
           = length (identifyRepetitivePhases poseData testType) div 2"
  using assms completeCycles_alternates[OF identifyRepetitivePhases_alternates]
  by (auto simp: countRepetitions_def countRepetitiveMovements_def)

text \<open>
  An instance of C1 with a trailing unmatched phase: the phases are down, up, down and the
  count is 1.
\<close>

theorem countRepetitions_complete_cycles_witness:
  "countRepetitions threePhasePoses ''sit-ups''
     = completeCycles (identifyRepetitivePhases threePhasePoses ''sit-ups'')
   \<and> countRepetitions threePhasePoses ''sit-ups''
     = length (identifyRepetitivePhases threePhasePoses ''sit-ups'') div 2
   \<and> map phase (identifyRepetitivePhases threePhasePoses ''sit-ups'') = [''down'', ''up'', ''down'']
   \<and> countRepetitions threePhasePoses ''sit-ups'' = 1"
proof -
  have ph: "map phase (identifyRepetitivePhases threePhasePoses ''sit-ups'')
              = [''down'', ''up'', ''down'']"
    by (simp add: identifyRepetitivePhases_def threePhasePoses_def poseAt_def repetitiveStep_def
        upt_rec orDefault_def)
  from arg_cong[OF ph, of length]
  have len: "length (identifyRepetitivePhases threePhasePoses ''sit-ups'') = 3"
    by simp
  from countRepetitions_complete_cycles[of "''sit-ups''" threePhasePoses] ph len
  show ?thesis by simp
qed

section \<open>Confidence\<close>

text \<open>
  C3, as the specification states it, fails on the boundary: at a movement quality of
  exactly 0.8 (not suspicious) the source returns 0.8, where the claim asks for 0.9.
\<close>

theorem calculateConfidence_boundary_counterexample:
  "calculateConfidence 0.8 False = 0.8 \<and> claimedConfidence 0.8 False = 0.9"
  by (simp add: calculateConfidence_def claimedConfidence_def Let_def)

text \<open>
  C3, amended. The confidence is the base 0.8, less 0.3 when the integrity verdict is
  suspicious, plus 0.1 when the movement quality is strictly greater than 0.8; the result
  always lies in \<open>[0, 1]\<close>, so the final clamp never changes it.
\<close>

theorem calculateConfidence_strict:
  "calculateConfidence q s = 0.8 - (if s then 0.3 else 0) + (if q > 0.8 then 0.1 else 0)
   \<and> 0 \<le> calculateConfidence q s \<and> calculateConfidence q s \<le> 1"
  by (simp add: calculateConfidence_def Let_def)

section \<open>Timing score\<close>

lemma expectedDuration_pos: "0 < expectedDuration testType"
  by (simp add: expectedDuration_def expectedDurations_def)

text \<open>
  C7, as the specification states it, fails on the boundary: a vertical jump lasting
  exactly half the expected 2000 ms lies in the closed band, and its timing score is not 1.
\<close>

theorem assessTiming_boundary_counterexample:
  "0.5 * expectedDuration ''vertical-jump''
     \<le> timestamp (last boundaryPoses) - timestamp (hd boundaryPoses)
   \<and> timestamp (last boundaryPoses) - timestamp (hd boundaryPoses)
     \<le> 2.0 * expectedDuration ''vertical-jump''
   \<and> assessTiming boundaryPoses ''vertical-jump'' \<noteq> Inr 1"
  by (simp add: assessTiming_def totalDurationOf_def bindE_def boundaryPoses_def poseAt_def
      objectPrototypeKeys_def expectedDuration_def expectedDurations_def)

text \<open>
  C7, amended. On a non-empty pose sequence the timing score is 1 when the total duration
  lies strictly between 0.5 and 2.0 times the expected duration of the test kind, and 0.8
  otherwise, the two boundaries included in the penalised part.
\<close>

theorem assessTiming_open_band:
  assumes "poseData \<noteq> []"
  shows "assessTiming poseData testType =
     Inr (if testType \<notin> set objectPrototypeKeys
            \<and> 0.5 * expectedDuration testType
                < timestamp (last poseData) - timestamp (hd poseData)
            \<and> timestamp (last poseData) - timestamp (hd poseData)
                < 2.0 * expectedDuration testType
          then 1.0 else 0.8)"
proof -
  have e: "0 < expectedDuration testType" by (rule expectedDuration_pos)
  have d: "totalDurationOf poseData = Inr (timestamp (last poseData) - timestamp (hd poseData))"
    using assms by (simp add: totalDurationOf_def last_conv_nth hd_conv_nth)
  show ?thesis
    using e
    by (simp add: assessTiming_def d bindE_def Let_def pos_less_divide_eq pos_divide_less_eq
        mult.commute)
qed

theorem assessTiming_open_band_witness:
  "boundaryPoses \<noteq> [] \<and> assessTiming boundaryPoses ''vertical-jump'' = Inr 0.8"
  using assessTiming_open_band[of boundaryPoses "''vertical-jump''"]
  by (simp add: boundaryPoses_def poseAt_def objectPrototypeKeys_def expectedDuration_def
      expectedDurations_def)

section \<open>Quality bands\<close>

lemma boundaryPoses_quality:
  "assessMovementQuality boundaryPoses ''vertical-jump'' =
     Inr \<lparr>overallScore = 33 / 40,
          detailedScores = \<lparr>form = 1 / 2, consistency = 1, rangeOfMotion = 1, timing = 4 / 5\<rparr>,
          quality = ''excellent''\<rparr>"
  by (simp add: assessMovementQuality_def assessForm_def assessJumpForm_def identifyJumpPhases_def
      jumpStep_def getKneeAngleChange_def getCenterOfMassChange_def orDefault_def
      assessConsistency_def assessRangeOfMotion_def assessTiming_def totalDurationOf_def
      bindE_def boundaryPoses_def poseAt_def objectPrototypeKeys_def expectedDuration_def
      expectedDurations_def qualityLabel_def Let_def)

text \<open>
  C6, as the specification states it, fails: an overall score of 0.825 lies in the claimed
  band for \<open>good\<close> (\<open>0.75 \<le> s < 0.90\<close>), and the source reports \<open>excellent\<close>.
\<close>

theorem assessMovementQuality_band_counterexample:
  "assessMovementQuality boundaryPoses ''vertical-jump'' =
     Inr \<lparr>overallScore = 33 / 40,
          detailedScores = \<lparr>form = 1 / 2, consistency = 1, rangeOfMotion = 1, timing = 4 / 5\<rparr>,
          quality = ''excellent''\<rparr>
   \<and> claimedQualityBand (33 / 40) = ''good''"
  using boundaryPoses_quality by (simp add: claimedQualityBand_def)

text \<open>
  C6, amended. The reported band is \<open>excellent\<close> when the overall score is strictly
  greater than 0.8, \<open>good\<close> when it is strictly greater than 0.6 and at most 0.8, and
  \<open>needs-improvement\<close> otherwise; there is no band \<open>average\<close>.
\<close>

theorem assessMovementQuality_bands:
  assumes "assessMovementQuality poseData testType = Inr q"
  shows "quality q = (if overallScore q > 0.8 then ''excellent''
                      else if overallScore q > 0.6 then ''good'' else ''needs-improvement'')
         \<and> quality q \<noteq> ''average''"
  using assms
  by (auto simp: assessMovementQuality_def bindE_def Let_def qualityLabel_def split: sum.splits)

theorem assessMovementQuality_bands_witness:
  "assessMovementQuality boundaryPoses ''vertical-jump'' =
     Inr \<lparr>overallScore = 33 / 40,
          detailedScores = \<lparr>form = 1 / 2, consistency = 1, rangeOfMotion = 1, timing = 4 / 5\<rparr>,
          quality = ''excellent''\<rparr>
   \<and> quality \<lparr>overallScore = 33 / 40,
          detailedScores = \<lparr>form = 1 / 2, consistency = 1, rangeOfMotion = 1, timing = 4 / 5\<rparr>,
          quality = ''excellent''\<rparr> = ''excellent''"
  using assessMovementQuality_bands[OF boundaryPoses_quality] boundaryPoses_quality
  by simp

section \<open>Cycle durations\<close>

text \<open>
  One step of the phase loop reads the tracked angle of the current pose and nothing else
  to decide whether a phase ends; timestamps only fill in the duration field.
\<close>

lemma repetitiveStep_angles_only:
  assumes "bodyAngles (pd1 ! i) = bodyAngles (pd2 ! i)"
  shows "(case (repetitiveStep pd1 testType i (u, s, ps1), repetitiveStep pd2 testType i (u, s, ps2)) of
           ((u1, s1, qs1), (u2, s2, qs2)) \<Rightarrow>
             u1 = u2 \<and> s1 = s2 \<and> (length ps1 = length ps2 \<longrightarrow> length qs1 = length qs2))"
  using assms by (simp add: repetitiveStep_def Let_def)

lemma repetitiveLoop_angles_only:
  assumes "\<forall>i \<in> set is. bodyAngles (pd1 ! i) = bodyAngles (pd2 ! i)"
    and "length ps1 = length ps2"
  shows "(case (fold (repetitiveStep pd1 testType) is (u, s, ps1),
                fold (repetitiveStep pd2 testType) is (u, s, ps2)) of
           ((u1, s1, qs1), (u2, s2, qs2)) \<Rightarrow> u1 = u2 \<and> s1 = s2 \<and> length qs1 = length qs2)"
  using assms
proof (induction "is" arbitrary: u s ps1 ps2)
  case Nil
  then show ?case by simp
next
  case (Cons i "is")
  obtain u1 s1 qs1 where a: "repetitiveStep pd1 testType i (u, s, ps1) = (u1, s1, qs1)"
    by (cases "repetitiveStep pd1 testType i (u, s, ps1)") auto
  obtain u2 s2 qs2 where b: "repetitiveStep pd2 testType i (u, s, ps2) = (u2, s2, qs2)"
    by (cases "repetitiveStep pd2 testType i (u, s, ps2)") auto
  from Cons.prems(1) have ang: "bodyAngles (pd1 ! i) = bodyAngles (pd2 ! i)" by simp
  from repetitiveStep_angles_only[OF ang, where testType = testType and u = u and s = s
      and ?ps1.0 = ps1 and ?ps2.0 = ps2] a b Cons.prems(2)
  have eq: "u1 = u2" "s1 = s2" "length qs1 = length qs2" by simp_all
  from Cons.prems(1) have rest: "\<forall>i \<in> set is. bodyAngles (pd1 ! i) = bodyAngles (pd2 ! i)" by simp
  from Cons.IH[OF rest eq(3), where u = u2 and s = s2] a b eq show ?case by simp
qed

lemma identifyRepetitivePhases_angles_only:
  assumes "map bodyAngles pd1 = map bodyAngles pd2"
  shows "length (identifyRepetitivePhases pd1 testType) = length (identifyRepetitivePhases pd2 testType)"
proof -
  from assms have len: "length pd1 = length pd2" by (rule map_eq_imp_length_eq)
  have "\<forall>i \<in> set [1..<length pd1]. bodyAngles (pd1 ! i) = bodyAngles (pd2 ! i)"
  proof
    fix i assume "i \<in> set [1..<length pd1]"
    then have "i < length pd1" by simp
    from nth_map[OF this, of bodyAngles] nth_map[of i pd2 bodyAngles] assms len \<open>i < length pd1\<close>
    show "bodyAngles (pd1 ! i) = bodyAngles (pd2 ! i)" by simp
  qed
  from repetitiveLoop_angles_only[OF this, where ?ps1.0 = "[]" and ?ps2.0 = "[]"
      and testType = testType and u = True and s = 0] len
  show ?thesis
    by (simp add: identifyRepetitivePhases_def split: prod.splits)
qed

text \<open>
  C8, amended. The source applies no duration window: the repetition count depends only on
  the sequence of tracked joint angles. Two recordings with the same angles and arbitrary
  timestamps, hence arbitrary cycle durations, get the same count.
\<close>

theorem countRepetitions_ignores_durations:
  assumes "map bodyAngles pd1 = map bodyAngles pd2"
  shows "countRepetitions pd1 testType = countRepetitions pd2 testType"
  using identifyRepetitivePhases_angles_only[OF assms]
  by (simp add: countRepetitions_def countRepetitiveMovements_def)

lemma oneCyclePoses_phases:
  "identifyRepetitivePhases (oneCyclePoses t) ''sit-ups'' =
     [\<lparr>phase = ''down'', startFrame = 0, endFrame = 1, duration = 1 / 1000\<rparr>,
      \<lparr>phase = ''up'', startFrame = 1, endFrame = 2, duration = (t - 1) / 1000\<rparr>]"
  by (simp add: identifyRepetitivePhases_def oneCyclePoses_def poseAt_def repetitiveStep_def
      upt_rec orDefault_def)

theorem countRepetitions_ignores_durations_witness:
  "map bodyAngles (oneCyclePoses 2) = map bodyAngles (oneCyclePoses 7200000)
   \<and> countRepetitions (oneCyclePoses 2) ''sit-ups'' = 1
   \<and> countRepetitions (oneCyclePoses 7200000) ''sit-ups'' = 1"
proof -
  have m: "map bodyAngles (oneCyclePoses 2) = map bodyAngles (oneCyclePoses 7200000)"
    by (simp add: oneCyclePoses_def poseAt_def)
  have c: "countRepetitions (oneCyclePoses 2) ''sit-ups'' = 1"
    by (simp add: countRepetitions_def countRepetitiveMovements_def oneCyclePoses_phases)
  from countRepetitions_ignores_durations[OF m, of "''sit-ups''"] m c show ?thesis by simp
qed

text \<open>
  C8, as the specification states it, fails for every choice of the window: whatever
  \<open>minCycleMs\<close> and \<open>maxCycleMs\<close> are, some recording has a cycle outside the window
  that the source counts. (The recording is \<open>oneCyclePoses (\<bar>maxCycleMs\<bar> + 2)\<close>, one
  down+up cycle lasting \<open>\<bar>maxCycleMs\<bar> + 2\<close> milliseconds.)
\<close>

theorem no_cycle_window_counterexample:
  "\<not> (\<exists>minCycleMs maxCycleMs. \<forall>poseData.
        countRepetitions poseData ''sit-ups''
          = specCountCycles minCycleMs maxCycleMs (identifyRepetitivePhases poseData ''sit-ups''))"
proof
  assume "\<exists>minCycleMs maxCycleMs. \<forall>poseData.
        countRepetitions poseData ''sit-ups''
          = specCountCycles minCycleMs maxCycleMs (identifyRepetitivePhases poseData ''sit-ups'')"
  then obtain lo hi where w: "\<And>poseData. countRepetitions poseData ''sit-ups''
          = specCountCycles lo hi (identifyRepetitivePhases poseData ''sit-ups'')"
    by blast
  have c: "countRepetitions (oneCyclePoses (\<bar>hi\<bar> + 2)) ''sit-ups'' = 1"
    by (simp add: countRepetitions_def countRepetitiveMovements_def oneCyclePoses_phases)
  have ms: "(1 / 1000 + (\<bar>hi\<bar> + 2 - 1) / 1000) * 1000 = \<bar>hi\<bar> + 2"
    by simp
  have "\<not> \<bar>hi\<bar> + 2 \<le> hi" by linarith
  then have "specCountCycles lo hi (identifyRepetitivePhases (oneCyclePoses (\<bar>hi\<bar> + 2)) ''sit-ups'') = 0"
    by (simp only: oneCyclePoses_phases specCountCycles.simps Let_def movementPhase.simps ms) simp
  with w[of "oneCyclePoses (\<bar>hi\<bar> + 2)"] c show False by simp
qed

section \<open>Suspicion score\<close>

lemma flag_fst: "fst (flag b w i r st) = fst st + (if b then w else 0)"
  by (cases st) (simp add: flag_def)

lemma combined_score_fst:
  "comb_suspicionScore
     (case st of (t, is, rs) \<Rightarrow>
        \<lparr>comb_suspicionScore = min 1 t, comb_issues = is, comb_recommendations = g rs\<rparr>)
     = min 1 (fst st)"
  by (cases st) simp

lemma sum_triggered_Cons:
  "sum_list (map snd (filter fst (zip (b # bs) (w # ws))))
     = (if b then w else 0) + sum_list (map snd (filter fst (zip bs ws)))"
  by simp

lemma sumTriggered_7:
  "sumTriggered [b1, b2, b3, b4, b5, b6, b7] =
     (if b1 then 0.15 else 0) + (if b2 then 0.1 else 0) + (if b3 then 0.2 else 0)
     + (if b4 then 0.3 else 0) + (if b5 then 0.15 else 0) + (if b6 then 0.25 else 0)
     + (if b7 then 0.1 else 0)"
proof -
  have "sum_list (map snd (filter fst (zip [] ([] :: real list)))) = 0" by simp
  then show ?thesis
    unfolding sumTriggered_def checkWeights_def sum_triggered_Cons
    by (simp only: add_0_right add.assoc)
qed

lemma combine_score_sum:
  "comb_suspicionScore (combineAnalysisResults fa mc mpa ac)
     = min 1 (sumTriggered (triggeredChecks fa mc mpa ac))"
proof -
  have "comb_suspicionScore (combineAnalysisResults fa mc mpa ac)
     = min 1 ((if \<not> bc_isConsistent (brightnessConsistency fa) then 0.15 else 0)
        + (if \<not> fr_isConsistent (frameRateConsistency fa) then 0.1 else 0)
        + (if cmp_hasArtifacts (compressionArtifacts mc) then 0.2 else 0)
        + (if sd_hasSplicing (splicingDetection mc) then 0.3 else 0)
        + (if \<not> pc_isConsistent (patternConsistency mpa) then 0.15 else 0)
        + (if mp_hasMultiplePeople (multiplePeople ac) then 0.25 else 0)
        + (if \<not> ec_isConsistent (environmentalConsistency ac) then 0.1 else 0))"
    unfolding combineAnalysisResults_def Let_def combined_score_fst flag_fst
    by simp
  also have "\<dots> = min 1 (sumTriggered (triggeredChecks fa mc mpa ac))"
    unfolding triggeredChecks_def sumTriggered_7 ..
  finally show ?thesis .
qed

lemma detectCheatAttempts_cases:
  "(\<exists>e. cheatTry rnd uri tt = Inl e \<and> detectCheatAttempts rnd uri tt =
          \<lparr>isSuspicious = False, suspicionScore = 0, detectedIssues = [''Analysis failed''],
           cheatRecommendations = [''Please try recording again''],
           detailedAnalysis = None, cheatError = Some (message e)\<rparr>)
   \<or> (\<exists>fa mc mpa ac. detectCheatAttempts rnd uri tt =
          \<lparr>isSuspicious = comb_suspicionScore (combineAnalysisResults fa mc mpa ac) > cheatThreshold,
           suspicionScore = comb_suspicionScore (combineAnalysisResults fa mc mpa ac),
           detectedIssues = comb_issues (combineAnalysisResults fa mc mpa ac),
           cheatRecommendations = comb_recommendations (combineAnalysisResults fa mc mpa ac),
           detailedAnalysis = Some \<lparr>da_frameAnalysis = fa, da_manipulationCheck = mc,
             da_movementPatternAnalysis = mpa, da_assistanceCheck = ac\<rparr>,
           cheatError = None\<rparr>)"
proof (cases "cheatTry rnd uri tt")
  case (Inl e)
  then show ?thesis by (simp add: detectCheatAttempts_def)
next
  case (Inr r)
  then show ?thesis
    by (auto simp: detectCheatAttempts_def cheatTry_def bindE_def Let_def split: sum.splits)
qed

text \<open>
  C2. For every combination of check outcomes the combined suspicion score lies in
  \<open>[0, 1]\<close>; it is 0 exactly when none of the seven checks triggered; it is the sum of the
  weights of the triggered checks clamped to \<open>[0, 1]\<close>, and the seven weights add up to
  1.25. The score \<^verbatim>\<open>detectCheatAttempts\<close> reports lies in \<open>[0, 1]\<close> as well, and its
  verdict is the comparison of that score with the threshold 0.7.
\<close>

theorem suspicionScore_bounds:
  "0 \<le> comb_suspicionScore (combineAnalysisResults fa mc mpa ac)
   \<and> comb_suspicionScore (combineAnalysisResults fa mc mpa ac) \<le> 1
   \<and> (comb_suspicionScore (combineAnalysisResults fa mc mpa ac) = 0)
       = (True \<notin> set (triggeredChecks fa mc mpa ac))
   \<and> comb_suspicionScore (combineAnalysisResults fa mc mpa ac)
       = min 1 (max 0 (sumTriggered (triggeredChecks fa mc mpa ac)))
   \<and> sumTriggered [True, True, True, True, True, True, True] = 1.25
   \<and> 0 \<le> suspicionScore (detectCheatAttempts rnd uri tt)
   \<and> suspicionScore (detectCheatAttempts rnd uri tt) \<le> 1
   \<and> isSuspicious (detectCheatAttempts rnd uri tt)
       = (suspicionScore (detectCheatAttempts rnd uri tt) > cheatThreshold)"
proof -
  have nonneg: "0 \<le> sumTriggered (triggeredChecks fa mc mpa ac)" for fa mc mpa ac
    by (simp add: triggeredChecks_def sumTriggered_7)
  have zero: "(sumTriggered (triggeredChecks fa mc mpa ac) = 0)
                = (True \<notin> set (triggeredChecks fa mc mpa ac))"
    by (simp add: triggeredChecks_def sumTriggered_7 add_nonneg_eq_0_iff)
  have b: "0 \<le> comb_suspicionScore (combineAnalysisResults fa mc mpa ac)
           \<and> comb_suspicionScore (combineAnalysisResults fa mc mpa ac) \<le> 1" for fa mc mpa ac
    using nonneg[of fa mc mpa ac] by (simp add: combine_score_sum)
  have z: "(comb_suspicionScore (combineAnalysisResults fa mc mpa ac) = 0)
            = (True \<notin> set (triggeredChecks fa mc mpa ac))"
    using zero nonneg[of fa mc mpa ac] by (auto simp: combine_score_sum min_def)
  have c: "comb_suspicionScore (combineAnalysisResults fa mc mpa ac)
       = min 1 (max 0 (sumTriggered (triggeredChecks fa mc mpa ac)))"
    using nonneg[of fa mc mpa ac] by (simp add: combine_score_sum max_def)
  have w: "sumTriggered [True, True, True, True, True, True, True] = 1.25"
    by (simp add: sumTriggered_7)
  have d: "0 \<le> suspicionScore (detectCheatAttempts rnd uri tt)
   \<and> suspicionScore (detectCheatAttempts rnd uri tt) \<le> 1
   \<and> isSuspicious (detectCheatAttempts rnd uri tt)
       = (suspicionScore (detectCheatAttempts rnd uri tt) > cheatThreshold)"
    using detectCheatAttempts_cases[of rnd uri tt] b
    by (auto simp: cheatThreshold_def)
  from b z c w d show ?thesis by blast
qed

text \<open>With all seven checks triggered the score is 1, not 1.25.\<close>

theorem suspicionScore_bounds_witness:
  "triggeredChecks allTriggeredFrameAnalysis allTriggeredManipulation allTriggeredMovement
     allTriggeredAssistance = [True, True, True, True, True, True, True]
   \<and> comb_suspicionScore (combineAnalysisResults allTriggeredFrameAnalysis
        allTriggeredManipulation allTriggeredMovement allTriggeredAssistance) = 1"
proof -
  have t: "triggeredChecks allTriggeredFrameAnalysis allTriggeredManipulation allTriggeredMovement
     allTriggeredAssistance = [True, True, True, True, True, True, True]"
    by (simp add: triggeredChecks_def allTriggeredFrameAnalysis_def allTriggeredManipulation_def
        allTriggeredMovement_def allTriggeredAssistance_def)
  from suspicionScore_bounds[of allTriggeredFrameAnalysis allTriggeredManipulation
      allTriggeredMovement allTriggeredAssistance] t
  show ?thesis by (simp add: sumTriggered_7)
qed

section \<open>Brightness consistency\<close>

lemma checkBrightnessConsistency_nonempty:
  assumes "frames \<noteq> []"
  shows "checkBrightnessConsistency frames =
     Inr \<lparr>bc_isConsistent = populationVariance (map (\<lambda>f. brightness (f_data f)) frames) < 0.1,
          bc_variance = populationVariance (map (\<lambda>f. brightness (f_data f)) frames),
          bc_avgBrightness = mean (map (\<lambda>f. brightness (f_data f)) frames),
          bc_suspiciousFrames = length (filter (\<lambda>b. \<bar>b - mean (map (\<lambda>f. brightness (f_data f)) frames)\<bar> > 0.3)
             (map (\<lambda>f. brightness (f_data f)) frames))\<rparr>"
proof -
  let ?bs = "map (\<lambda>f. brightness (f_data f)) frames"
  from assms have ne: "?bs \<noteq> []" by simp
  have m: "sum_list ?bs / real (length ?bs) = mean ?bs" by (simp add: mean_def)
  show ?thesis
    unfolding checkBrightnessConsistency_def Let_def reduceSum_sum_list[OF ne]
    by (simp add: bindE_def m calculateVariance_mean[OF ne] del: length_map)
qed

lemma checkBrightnessConsistency_empty:
  "checkBrightnessConsistency [] = Inl (TypeError ''Reduce of empty array with no initial value'')"
  by (simp add: checkBrightnessConsistency_def reduceSum_def bindE_def)

text \<open>
  C5, amended. The brightness check is triggered exactly when the variance of the per-frame
  brightness is at least 0.1. The number of frames that deviate by more than 0.3 from the
  mean is reported in \<open>suspiciousFrames\<close> and triggers nothing. A triggered check adds its
  weight 0.15 to the sum of the other triggered weights, which is then clamped to 1.
\<close>

theorem brightness_trigger_variance_only:
  assumes "checkBrightnessConsistency frames = Inr bc"
    and "brightnessConsistency fa = bc"
  shows "(\<not> bc_isConsistent bc)
           = (0.1 \<le> populationVariance (map (\<lambda>f. brightness (f_data f)) frames))
     \<and> bc_suspiciousFrames bc
           = length (filter (\<lambda>b. \<bar>b - mean (map (\<lambda>f. brightness (f_data f)) frames)\<bar> > 0.3)
                       (map (\<lambda>f. brightness (f_data f)) frames))
     \<and> comb_suspicionScore (combineAnalysisResults fa mc mpa ac)
           = min 1 ((if 0.1 \<le> populationVariance (map (\<lambda>f. brightness (f_data f)) frames)
                     then 0.15 else 0)
                    + sumTriggered (False # tl (triggeredChecks fa mc mpa ac)))"
proof -
  from assms(1) have ne: "frames \<noteq> []"
    by (auto simp: checkBrightnessConsistency_empty)
  from checkBrightnessConsistency_nonempty[OF ne] assms(1)
  have bc: "bc = \<lparr>bc_isConsistent = populationVariance (map (\<lambda>f. brightness (f_data f)) frames) < 0.1,
          bc_variance = populationVariance (map (\<lambda>f. brightness (f_data f)) frames),
          bc_avgBrightness = mean (map (\<lambda>f. brightness (f_data f)) frames),
          bc_suspiciousFrames = length (filter (\<lambda>b. \<bar>b - mean (map (\<lambda>f. brightness (f_data f)) frames)\<bar> > 0.3)
             (map (\<lambda>f. brightness (f_data f)) frames))\<rparr>"
    by simp
  have t: "(\<not> bc_isConsistent bc)
           = (0.1 \<le> populationVariance (map (\<lambda>f. brightness (f_data f)) frames))"
    by (auto simp: bc)
  have s: "bc_suspiciousFrames bc
           = length (filter (\<lambda>b. \<bar>b - mean (map (\<lambda>f. brightness (f_data f)) frames)\<bar> > 0.3)
                       (map (\<lambda>f. brightness (f_data f)) frames))"
    by (simp add: bc)
  have c: "comb_suspicionScore (combineAnalysisResults fa mc mpa ac)
           = min 1 ((if \<not> bc_isConsistent bc then 0.15 else 0)
                    + sumTriggered (False # tl (triggeredChecks fa mc mpa ac)))"
    unfolding combine_score_sum triggeredChecks_def list.sel sumTriggered_7 assms(2)
    by simp
  from t s c show ?thesis by simp
qed

lemma spikeFrames_check:
  "checkBrightnessConsistency spikeFrames =
     Inr \<lparr>bc_isConsistent = True, bc_variance = 0.0432, bc_avgBrightness = 0.62,
          bc_suspiciousFrames = 1\<rparr>"
  by (simp add: checkBrightnessConsistency_def spikeFrames_def frameAt_def frameDataWith_def
      reduceSum_def calculateVariance_def bindE_def power2_eq_square)

text \<open>
  C5, as the specification states it, fails: in \<open>spikeFrames\<close> the last frame has
  brightness 0.98 against a mean of 0.62, a deviation above 0.3, and the check reports the
  recording as consistent (the variance is 0.0432).
\<close>

theorem brightness_spike_counterexample:
  "claimedBrightnessTriggered (map (\<lambda>f. brightness (f_data f)) spikeFrames)
   \<and> checkBrightnessConsistency spikeFrames =
       Inr \<lparr>bc_isConsistent = True, bc_variance = 0.0432, bc_avgBrightness = 0.62,
            bc_suspiciousFrames = 1\<rparr>"
  using spikeFrames_check
  by (simp add: claimedBrightnessTriggered_def spikeFrames_def frameAt_def frameDataWith_def
      mean_def)

theorem brightness_trigger_variance_only_witness:
  "checkBrightnessConsistency spikeFrames =
       Inr \<lparr>bc_isConsistent = True, bc_variance = 0.0432, bc_avgBrightness = 0.62,
            bc_suspiciousFrames = 1\<rparr>
   \<and> \<not> 0.1 \<le> populationVariance (map (\<lambda>f. brightness (f_data f)) spikeFrames)
   \<and> comb_suspicionScore (combineAnalysisResults
        (allTriggeredFrameAnalysis\<lparr>brightnessConsistency :=
           \<lparr>bc_isConsistent = True, bc_variance = 0.0432, bc_avgBrightness = 0.62,
            bc_suspiciousFrames = 1\<rparr>\<rparr>)
        allTriggeredManipulation allTriggeredMovement allTriggeredAssistance) = 1"
proof -
  let ?bc = "\<lparr>bc_isConsistent = True, bc_variance = 0.0432, bc_avgBrightness = 0.62,
            bc_suspiciousFrames = 1\<rparr>"
  let ?fa = "allTriggeredFrameAnalysis\<lparr>brightnessConsistency := ?bc\<rparr>"
  have f: "brightnessConsistency ?fa = ?bc" by simp
  note th = brightness_trigger_variance_only[OF spikeFrames_check f,
      of allTriggeredManipulation allTriggeredMovement allTriggeredAssistance]
  from th have v: "\<not> 0.1 \<le> populationVariance (map (\<lambda>f. brightness (f_data f)) spikeFrames)"
    by simp
  have r: "sumTriggered (False # tl (triggeredChecks ?fa allTriggeredManipulation
             allTriggeredMovement allTriggeredAssistance)) = 1.1"
    by (simp add: triggeredChecks_def sumTriggered_7 allTriggeredFrameAnalysis_def
      allTriggeredManipulation_def allTriggeredMovement_def allTriggeredAssistance_def)
  from th v have "comb_suspicionScore (combineAnalysisResults ?fa allTriggeredManipulation
      allTriggeredMovement allTriggeredAssistance) = min 1 (0 + 1.1)"
    unfolding r by presburger
  then have c: "comb_suspicionScore (combineAnalysisResults ?fa allTriggeredManipulation
      allTriggeredMovement allTriggeredAssistance) = 1" by simp
  from spikeFrames_check v c show ?thesis by blast
qed

section \<open>Failure of the integrity analysis\<close>

text \<open>
  C10. If any step inside the \<^verbatim>\<open>try\<close> block of \<^verbatim>\<open>detectCheatAttempts\<close> throws, the
  function returns the structured result of its \<^verbatim>\<open>catch\<close> block: not suspicious, score
  0, the single issue \<open>Analysis failed\<close>, and the message of some thrown error.
\<close>

theorem detectCheatAttempts_fail_open:
  assumes "extractFramesFromVideo rnd uri = Inl e
      \<or> (\<exists>frames. extractFramesFromVideo rnd uri = Inr frames
            \<and> (analyzeFrames frames tt = Inl e \<or> checkVideoManipulation frames = Inl e
               \<or> analyzeMovementPatterns frames tt = Inl e
               \<or> checkExternalAssistance frames = Inl e))"
  shows "\<exists>e'. detectCheatAttempts rnd uri tt =
           \<lparr>isSuspicious = False, suspicionScore = 0, detectedIssues = [''Analysis failed''],
            cheatRecommendations = [''Please try recording again''],
            detailedAnalysis = None, cheatError = Some (message e')\<rparr>"
proof -
  from assms have "\<exists>e'. cheatTry rnd uri tt = Inl e'"
    by (auto simp: cheatTry_def bindE_def split: sum.splits)
  then show ?thesis by (auto simp: detectCheatAttempts_def)
qed

text \<open>
  Which step throws. On the 50 extracted frames every check up to the pattern check
  returns; the call of the undefined \<^verbatim>\<open>detectRepetitions\<close> then throws, whatever the
  frames contain. So every invocation ends in the \<^verbatim>\<open>catch\<close> block.
\<close>

lemma checkFrameRateConsistency_ok:
  assumes "2 \<le> length frames"
  shows "\<exists>r. checkFrameRateConsistency frames = Inr r"
proof -
  let ?ts = "map f_timestamp frames"
  let ?ds = "map (\<lambda>i. ?ts ! i - ?ts ! (i - 1)) [1..<length ?ts]"
  from assms have "Suc 0 < length frames" by linarith
  then have ne: "?ds \<noteq> []" by auto
  from calculateVariance_ok[OF ne] obtain v
    where v: "calculateVariance ?ds (Some (sum_list ?ds / real (length ?ds))) = Inr v"
    by blast
  show ?thesis
    unfolding checkFrameRateConsistency_def Let_def
    by (simp only: bindE_Inr[OF reduceSum_sum_list[OF ne]] bindE_Inr[OF v]) blast
qed

lemma checkMotionConsistency_ok:
  "frames \<noteq> [] \<Longrightarrow> \<exists>r. checkMotionConsistency frames tt = Inr r"
  by (simp add: checkMotionConsistency_def reduceSum_sum_list bindE_def Let_def)

lemma checkColorConsistency_ok:
  "frames \<noteq> [] \<Longrightarrow> \<exists>r. checkColorConsistency frames = Inr r"
  by (simp add: checkColorConsistency_def reduceSum_sum_list bindE_def Let_def)

lemma analyzeFrames_ok:
  assumes "2 \<le> length frames"
  shows "\<exists>r. analyzeFrames frames tt = Inr r"
proof -
  from assms have ne: "frames \<noteq> []" by (cases frames) simp_all
  from checkBrightnessConsistency_nonempty[OF ne] obtain b
    where b: "checkBrightnessConsistency frames = Inr b" by blast
  from checkFrameRateConsistency_ok[OF assms] obtain r
    where r: "checkFrameRateConsistency frames = Inr r" by blast
  from checkMotionConsistency_ok[OF ne] obtain m
    where m: "checkMotionConsistency frames tt = Inr m" by blast
  from checkColorConsistency_ok[OF ne] obtain c
    where c: "checkColorConsistency frames = Inr c" by blast
  show ?thesis by (simp add: analyzeFrames_def b r m c bindE_def)
qed

lemma checkVideoManipulation_ok:
  assumes "frames \<noteq> []"
  shows "\<exists>r. checkVideoManipulation frames = Inr r"
proof -
  let ?es = "map (\<lambda>frame. edges (f_data frame)) frames"
  from assms have ne: "?es \<noteq> []" by simp
  from calculateVariance_ok[OF ne] obtain v where v: "calculateVariance ?es None = Inr v"
    by blast
  show ?thesis
    by (simp add: checkVideoManipulation_def detectCompressionArtifacts_def
        detectEdgeInconsistencies_def reduceSum_sum_list[OF ne] v bindE_def Let_def)
qed

lemma isRegularSpacing_ok: "\<exists>b. isRegularSpacing peaks tol = Inr b"
proof (cases "length peaks < 2")
  case True
  then show ?thesis by (auto simp: isRegularSpacing_def)
next
  case False
  let ?sp = "map (\<lambda>i. real (pk_index (peaks ! i)) - real (pk_index (peaks ! (i - 1))))
               [1..<length peaks]"
  from False have "Suc 0 < length peaks" by linarith
  then have ne: "?sp \<noteq> []" by auto
  show ?thesis
    unfolding isRegularSpacing_def Let_def
    by (simp only: False if_False bindE_Inr[OF reduceSum_sum_list[OF ne]]) blast
qed

lemma hasRepetitivePattern_ok: "\<exists>b. hasRepetitivePattern xs = Inr b"
  using isRegularSpacing_ok by (auto simp: hasRepetitivePattern_def Let_def)

lemma hasBurstPattern_ok: "xs \<noteq> [] \<Longrightarrow> \<exists>b. hasBurstPattern xs = Inr b"
  by (simp add: hasBurstPattern_def reduceSum_sum_list bindE_def Let_def)

lemma hasSteadyPattern_ok:
  assumes "xs \<noteq> []"
  shows "\<exists>b. hasSteadyPattern xs = Inr b"
proof -
  from calculateVariance_ok[OF assms] obtain v where "calculateVariance xs None = Inr v"
    by blast
  then show ?thesis by (simp add: hasSteadyPattern_def bindE_def)
qed

lemma identifyPattern_ok:
  assumes "movementData \<noteq> []"
  shows "\<exists>p. identifyPattern movementData = Inr p"
proof -
  let ?ms = "map md_motion movementData"
  from assms have ne: "?ms \<noteq> []" by simp
  from hasRepetitivePattern_ok obtain r where r: "hasRepetitivePattern ?ms = Inr r" by blast
  from hasBurstPattern_ok[OF ne] obtain b where b: "hasBurstPattern ?ms = Inr b" by blast
  from hasSteadyPattern_ok[OF ne] obtain s where s: "hasSteadyPattern ?ms = Inr s" by blast
  show ?thesis
    unfolding identifyPattern_def Let_def reduceSum_sum_list[OF ne] r b s bindE_def
    by simp
qed

lemma analyzeMovementPatterns_TypeError:
  assumes "frames \<noteq> []"
  shows "analyzeMovementPatterns frames tt
           = Inl (TypeError ''this.detectRepetitions is not a function'')"
proof -
  from assms have "extractMovementData frames \<noteq> []" by (simp add: extractMovementData_def)
  from identifyPattern_ok[OF this] obtain p
    where "identifyPattern (extractMovementData frames) = Inr p" by blast
  then show ?thesis
    by (simp add: analyzeMovementPatterns_def checkPatternConsistency_def detectRepetitions_def
        bindE_def Let_def)
qed

lemma cheatTry_TypeError:
  "cheatTry rnd uri tt = Inl (TypeError ''this.detectRepetitions is not a function'')"
proof -
  let ?frames = "map (\<lambda>i. \<lparr>f_id = i, f_timestamp = real i * (1000 / frameRate), f_data = rnd i\<rparr>)
            [0..<maxFrameHistory]"
  have len: "2 \<le> length ?frames" by (simp add: maxFrameHistory_def)
  have ne: "?frames \<noteq> []" by (simp add: maxFrameHistory_def)
  from analyzeFrames_ok[OF len] obtain a where a: "analyzeFrames ?frames tt = Inr a" by blast
  from checkVideoManipulation_ok[OF ne] obtain m where m: "checkVideoManipulation ?frames = Inr m"
    by blast
  show ?thesis
    unfolding cheatTry_def extractFramesFromVideo_def
    by (simp only: bindE_Inr[OF refl] bindE_Inr[OF a] bindE_Inr[OF m]
        bindE_Inl[OF analyzeMovementPatterns_TypeError[OF ne]])
qed

lemma detectCheatAttempts_result:
  "detectCheatAttempts rnd uri tt =
     \<lparr>isSuspicious = False, suspicionScore = 0, detectedIssues = [''Analysis failed''],
      cheatRecommendations = [''Please try recording again''],
      detailedAnalysis = None,
      cheatError = Some ''this.detectRepetitions is not a function''\<rparr>"
  by (simp add: detectCheatAttempts_def cheatTry_TypeError)

theorem detectCheatAttempts_fail_open_witness:
  "(\<exists>frames. extractFramesFromVideo (\<lambda>i. frameDataWith 0.75) ''file:///video.mp4'' = Inr frames
       \<and> analyzeMovementPatterns frames ''sit-ups''
           = Inl (TypeError ''this.detectRepetitions is not a function''))
   \<and> (\<exists>e'. detectCheatAttempts (\<lambda>i. frameDataWith 0.75) ''file:///video.mp4'' ''sit-ups'' =
           \<lparr>isSuspicious = False, suspicionScore = 0, detectedIssues = [''Analysis failed''],
            cheatRecommendations = [''Please try recording again''],
            detailedAnalysis = None, cheatError = Some (message e')\<rparr>)"
proof -
  let ?frames = "map (\<lambda>i. \<lparr>f_id = i, f_timestamp = real i * (1000 / frameRate),
                     f_data = frameDataWith 0.75\<rparr>) [0..<maxFrameHistory]"
  have ne: "?frames \<noteq> []" by (simp add: maxFrameHistory_def)
  have h: "\<exists>frames. extractFramesFromVideo (\<lambda>i. frameDataWith 0.75) ''file:///video.mp4'' = Inr frames
       \<and> analyzeMovementPatterns frames ''sit-ups''
           = Inl (TypeError ''this.detectRepetitions is not a function'')"
    using analyzeMovementPatterns_TypeError[OF ne, of "''sit-ups''"]
    by (simp add: extractFramesFromVideo_def)
  then have "extractFramesFromVideo (\<lambda>i. frameDataWith 0.75) ''file:///video.mp4''
        = Inl (TypeError ''this.detectRepetitions is not a function'')
      \<or> (\<exists>frames. extractFramesFromVideo (\<lambda>i. frameDataWith 0.75) ''file:///video.mp4'' = Inr frames
            \<and> (analyzeFrames frames ''sit-ups'' = Inl (TypeError ''this.detectRepetitions is not a function'')
               \<or> checkVideoManipulation frames = Inl (TypeError ''this.detectRepetitions is not a function'')
               \<or> analyzeMovementPatterns frames ''sit-ups'' = Inl (TypeError ''this.detectRepetitions is not a function'')
               \<or> checkExternalAssistance frames = Inl (TypeError ''this.detectRepetitions is not a function'')))"
    by blast
  from detectCheatAttempts_fail_open[OF this] h show ?thesis by blast
qed

section \<open>The boundary of the entry point\<close>

lemma cache_ensureInitialized [simp]:
  "analysisCache (ensureInitialized env s) = analysisCache s"
  by (simp add: ensureInitialized_def)

text \<open>
  \<^verbatim>\<open>analyzeVideoOffline\<close> returns on every input: the value of its \<^verbatim>\<open>try\<close> block, or
  the object its \<^verbatim>\<open>catch\<close> block builds from the error thrown. The \<^verbatim>\<open>catch\<close> block
  itself performs nothing that can throw.
\<close>

lemma analyzeVideoOffline_cases:
  "(\<exists>r s'. analyzeTry j pd env (ensureInitialized env s) u t p = Inr (r, s')
            \<and> analyzeVideoOffline j pd env s u t p = (Results r, s'))
   \<or> (\<exists>e. analyzeTry j pd env (ensureInitialized env s) u t p = Inl e
          \<and> analyzeVideoOffline j pd env s u t p =
               (Failure \<lparr>fr_error = True, fr_message = message e,
                         fr_fallbackResults = generateFallbackResults u t\<rparr>,
                ensureInitialized env s))"
proof (cases "analyzeTry j pd env (ensureInitialized env s) u t p")
  case (Inl e)
  then show ?thesis by (simp add: analyzeVideoOffline_def Let_def)
next
  case (Inr rs)
  then show ?thesis by (cases rs) (simp add: analyzeVideoOffline_def Let_def)
qed

lemma analyzeTry_unsupported:
  assumes "map_of (analysisCache s) (cacheKey j u t p) = None" and "t \<notin> set supportedTests"
  shows "analyzeTry j pd env s u t p = Inl (Error (''Unsupported test type: '' @ t))"
  using assms by (simp add: analyzeTry_def Let_def)

lemma analyzeTry_movement_fails:
  assumes "map_of (analysisCache s) (cacheKey j u t p) = None" and "t \<in> set supportedTests"
    and "analyzeMovement pd t = Inl e"
  shows "analyzeTry j pd env s u t p = Inl e"
  using assms by (simp add: analyzeTry_def compileResults_def bindE_def Let_def)

lemma analyzeTry_benchmarking_fails:
  assumes "map_of (analysisCache s) (cacheKey j u t p) = None" and "t \<in> set supportedTests"
    and "analyzeMovement pd t = Inr m"
    and "performBenchmarking (calculatePerformance m t) p = Inl e"
  shows "analyzeTry j pd env s u t p = Inl e"
  using assms by (simp add: analyzeTry_def compileResults_def bindE_def Let_def)

text \<open>
  What makes the \<^verbatim>\<open>try\<close> block throw: without a cache hit, an unsupported test kind, a
  failed movement analysis or a failed benchmarking; nothing else. The integrity analysis
  is not among them, since \<^verbatim>\<open>detectCheatAttempts\<close> returns a value in every case.
\<close>

lemma compileResults_Inl_causes:
  assumes "compileResults pd env u t p = Inl e"
  shows "analyzeMovement pd t = Inl e
         \<or> (\<exists>m. analyzeMovement pd t = Inr m
                \<and> performBenchmarking (calculatePerformance m t) p = Inl e)"
proof (cases "analyzeMovement pd t")
  case (Inl e')
  with assms show ?thesis by (simp add: compileResults_def bindE_def)
next
  case (Inr m)
  with assms have "performBenchmarking (calculatePerformance m t) p = Inl e"
    by (cases "performBenchmarking (calculatePerformance m t) p")
       (simp_all add: compileResults_def bindE_def Let_def)
  with Inr show ?thesis by blast
qed

lemma analyzeTry_Inl_causes:
  assumes "analyzeTry j pd env s u t p = Inl e"
  shows "map_of (analysisCache s) (cacheKey j u t p) = None
         \<and> ((t \<notin> set supportedTests \<and> e = Error (''Unsupported test type: '' @ t))
            \<or> (t \<in> set supportedTests
               \<and> (analyzeMovement pd t = Inl e
                  \<or> (\<exists>m. analyzeMovement pd t = Inr m
                         \<and> performBenchmarking (calculatePerformance m t) p = Inl e))))"
proof -
  from assms have miss: "map_of (analysisCache s) (cacheKey j u t p) = None"
    by (cases "map_of (analysisCache s) (cacheKey j u t p)") (simp_all add: analyzeTry_def Let_def)
  show ?thesis
  proof (cases "t \<in> set supportedTests")
    case False
    with assms miss show ?thesis by (simp add: analyzeTry_def Let_def)
  next
    case True
    with assms miss have "compileResults pd env u t p = Inl e"
      by (cases "compileResults pd env u t p") (simp_all add: analyzeTry_def Let_def bindE_def)
    from compileResults_Inl_causes[OF this] miss True show ?thesis by blast
  qed
qed

lemma analyzeTry_Inr_cases:
  assumes "analyzeTry j pd env s u t p = Inr (r, s')"
  shows "map_of (analysisCache s) (cacheKey j u t p) = Some r
         \<or> (map_of (analysisCache s) (cacheKey j u t p) = None
            \<and> compileResults pd env u t p = Inr r
            \<and> s' = setCache s (cacheKey j u t p) r)"
proof (cases "map_of (analysisCache s) (cacheKey j u t p)")
  case (Some c)
  with assms show ?thesis by (simp add: analyzeTry_def Let_def)
next
  case None
  with assms have sup: "t \<in> set supportedTests"
    by (cases "t \<in> set supportedTests") (simp_all add: analyzeTry_def Let_def)
  with assms None show ?thesis
    by (cases "compileResults pd env u t p") (simp_all add: analyzeTry_def Let_def bindE_def)
qed

lemma compileResults_fields:
  assumes "compileResults pd env u t p = Inr r"
  shows "res_cheatAnalysis r = detectCheatAttempts (randomDraws env) u t
         \<and> res_confidence r = calculateConfidence (pm_movementQuality (res_performanceMetrics r))
                                 (isSuspicious (res_cheatAnalysis r))
         \<and> res_timestamp r = clockReading env 0"
proof -
  from assms obtain m where m: "analyzeMovement pd t = Inr m"
    by (cases "analyzeMovement pd t") (simp_all add: compileResults_def bindE_def)
  with assms obtain b where "performBenchmarking (calculatePerformance m t) p = Inr b"
    by (cases "performBenchmarking (calculatePerformance m t) p")
       (simp_all add: compileResults_def bindE_def Let_def)
  with assms m show ?thesis
    by (auto simp: compileResults_def bindE_def Let_def)
qed

lemma failed_integrity_analysis:
  assumes "cheatError (detectCheatAttempts rnd u t) \<noteq> None"
  shows "\<not> isSuspicious (detectCheatAttempts rnd u t)
         \<and> detectedIssues (detectCheatAttempts rnd u t) = [''Analysis failed'']"
  using detectCheatAttempts_cases[of rnd u t] assms by auto

text \<open>Whether \<^verbatim>\<open>initialize()\<close> succeeds shows nowhere in what is returned.\<close>

lemma outcome_ignores_initialize:
  "fst (analyzeVideoOffline j pd (env\<lparr>initializeSucceeds := b\<rparr>) s u t p)
     = fst (analyzeVideoOffline j pd env s u t p)"
proof -
  have c: "compileResults pd (env\<lparr>initializeSucceeds := b\<rparr>) u t p = compileResults pd env u t p"
    by (simp add: compileResults_def)
  have "map_sum id fst (analyzeTry j pd (env\<lparr>initializeSucceeds := b\<rparr>)
            (ensureInitialized (env\<lparr>initializeSucceeds := b\<rparr>) s) u t p)
        = map_sum id fst (analyzeTry j pd env (ensureInitialized env s) u t p)"
    by (cases "map_of (analysisCache s) (cacheKey j u t p)";
        cases "compileResults pd env u t p")
       (simp_all add: analyzeTry_def Let_def c bindE_def)
  then show ?thesis
    by (cases "analyzeTry j pd (env\<lparr>initializeSucceeds := b\<rparr>)
            (ensureInitialized (env\<lparr>initializeSucceeds := b\<rparr>) s) u t p";
        cases "analyzeTry j pd env (ensureInitialized env s) u t p")
       (auto simp: analyzeVideoOffline_def Let_def)
qed

text \<open>
  C4, amended. \<^verbatim>\<open>analyzeVideoOffline\<close> never lets an exception escape. Every error its
  \<^verbatim>\<open>try\<close> block throws (without a cache hit: an unsupported test kind, a failed movement
  analysis, a failed benchmarking) is returned as the structured object
  \<open>{error: true, message, fallbackResults}\<close> whose fallback results carry confidence 0, and
  each of these conditions leads to that object. Two failures are not of this kind. A
  failure inside the integrity analysis is absorbed by \<^verbatim>\<open>detectCheatAttempts\<close>: the entry
  point then returns an ordinary result that records the issue \<open>Analysis failed\<close> in its
  cheat analysis and carries the confidence computed as usual, 0.8 or 0.9. And a failed
  \<^verbatim>\<open>initialize()\<close> changes nothing in what is returned.
\<close>

theorem analyzeVideoOffline_failure_boundary:
  "((\<exists>e. analyzeTry j pd env (ensureInitialized env s) u t p = Inl e
          \<and> analyzeVideoOffline j pd env s u t p =
               (Failure \<lparr>fr_error = True, fr_message = message e,
                         fr_fallbackResults = generateFallbackResults u t\<rparr>,
                ensureInitialized env s)
          \<and> fb_confidence (generateFallbackResults u t) = 0
          \<and> map_of (analysisCache s) (cacheKey j u t p) = None
          \<and> ((t \<notin> set supportedTests \<and> e = Error (''Unsupported test type: '' @ t))
             \<or> (t \<in> set supportedTests
                \<and> (analyzeMovement pd t = Inl e
                   \<or> (\<exists>m. analyzeMovement pd t = Inr m
                          \<and> performBenchmarking (calculatePerformance m t) p = Inl e)))))
    \<or> (\<exists>r s'. analyzeTry j pd env (ensureInitialized env s) u t p = Inr (r, s')
          \<and> analyzeVideoOffline j pd env s u t p = (Results r, s')
          \<and> (map_of (analysisCache s) (cacheKey j u t p) = Some r
             \<or> (compileResults pd env u t p = Inr r
                \<and> res_cheatAnalysis r = detectCheatAttempts (randomDraws env) u t
                \<and> res_confidence r
                     = calculateConfidence (pm_movementQuality (res_performanceMetrics r))
                         (isSuspicious (res_cheatAnalysis r))
                \<and> (cheatError (res_cheatAnalysis r) \<noteq> None \<longrightarrow>
                     detectedIssues (res_cheatAnalysis r) = [''Analysis failed'']
                     \<and> res_confidence r
                         = (if pm_movementQuality (res_performanceMetrics r) > 0.8
                            then 0.9 else 0.8))))))
   \<and> (map_of (analysisCache s) (cacheKey j u t p) = None
        \<and> (t \<notin> set supportedTests \<or> analyzeMovement pd t = Inl e0
            \<or> (\<exists>m. analyzeMovement pd t = Inr m
                   \<and> performBenchmarking (calculatePerformance m t) p = Inl e0))
       \<longrightarrow> (\<exists>msg. fst (analyzeVideoOffline j pd env s u t p) =
                    Failure \<lparr>fr_error = True, fr_message = msg,
                             fr_fallbackResults = generateFallbackResults u t\<rparr>))
   \<and> fst (analyzeVideoOffline j pd (env\<lparr>initializeSucceeds := b\<rparr>) s u t p)
        = fst (analyzeVideoOffline j pd env s u t p)"
proof -
  let ?s = "ensureInitialized env s"
  have A: "(\<exists>e. analyzeTry j pd env ?s u t p = Inl e
          \<and> analyzeVideoOffline j pd env s u t p =
               (Failure \<lparr>fr_error = True, fr_message = message e,
                         fr_fallbackResults = generateFallbackResults u t\<rparr>, ?s)
          \<and> fb_confidence (generateFallbackResults u t) = 0
          \<and> map_of (analysisCache s) (cacheKey j u t p) = None
          \<and> ((t \<notin> set supportedTests \<and> e = Error (''Unsupported test type: '' @ t))
             \<or> (t \<in> set supportedTests
                \<and> (analyzeMovement pd t = Inl e
                   \<or> (\<exists>m. analyzeMovement pd t = Inr m
                          \<and> performBenchmarking (calculatePerformance m t) p = Inl e)))))
    \<or> (\<exists>r s'. analyzeTry j pd env ?s u t p = Inr (r, s')
          \<and> analyzeVideoOffline j pd env s u t p = (Results r, s')
          \<and> (map_of (analysisCache s) (cacheKey j u t p) = Some r
             \<or> (compileResults pd env u t p = Inr r
                \<and> res_cheatAnalysis r = detectCheatAttempts (randomDraws env) u t
                \<and> res_confidence r
                     = calculateConfidence (pm_movementQuality (res_performanceMetrics r))
                         (isSuspicious (res_cheatAnalysis r))
                \<and> (cheatError (res_cheatAnalysis r) \<noteq> None \<longrightarrow>
                     detectedIssues (res_cheatAnalysis r) = [''Analysis failed'']
                     \<and> res_confidence r
                         = (if pm_movementQuality (res_performanceMetrics r) > 0.8
                            then 0.9 else 0.8)))))"
  proof (cases "analyzeTry j pd env ?s u t p")
    case (Inl e)
    from analyzeTry_Inl_causes[OF Inl] analyzeVideoOffline_cases[of j pd env s u t p] Inl
    show ?thesis by (auto simp: generateFallbackResults_def)
  next
    case (Inr rs)
    obtain r s' where rs: "rs = (r, s')" by (cases rs)
    from analyzeVideoOffline_cases[of j pd env s u t p] Inr rs
    have v: "analyzeVideoOffline j pd env s u t p = (Results r, s')" by auto
    from analyzeTry_Inr_cases[OF Inr[unfolded rs]]
    have "map_of (analysisCache s) (cacheKey j u t p) = Some r
          \<or> compileResults pd env u t p = Inr r" by auto
    then have "map_of (analysisCache s) (cacheKey j u t p) = Some r
             \<or> (compileResults pd env u t p = Inr r
                \<and> res_cheatAnalysis r = detectCheatAttempts (randomDraws env) u t
                \<and> res_confidence r
                     = calculateConfidence (pm_movementQuality (res_performanceMetrics r))
                         (isSuspicious (res_cheatAnalysis r))
                \<and> (cheatError (res_cheatAnalysis r) \<noteq> None \<longrightarrow>
                     detectedIssues (res_cheatAnalysis r) = [''Analysis failed'']
                     \<and> res_confidence r
                         = (if pm_movementQuality (res_performanceMetrics r) > 0.8
                            then 0.9 else 0.8)))"
    proof
      assume "map_of (analysisCache s) (cacheKey j u t p) = Some r"
      then show ?thesis by simp
    next
      assume c: "compileResults pd env u t p = Inr r"
      note f = compileResults_fields[OF c]
      have "cheatError (res_cheatAnalysis r) \<noteq> None \<longrightarrow>
                     detectedIssues (res_cheatAnalysis r) = [''Analysis failed'']
                     \<and> res_confidence r
                         = (if pm_movementQuality (res_performanceMetrics r) > 0.8
                            then 0.9 else 0.8)"
      proof
        assume "cheatError (res_cheatAnalysis r) \<noteq> None"
        with f have "cheatError (detectCheatAttempts (randomDraws env) u t) \<noteq> None" by simp
        from failed_integrity_analysis[OF this] f
        have "\<not> isSuspicious (res_cheatAnalysis r)"
          and i: "detectedIssues (res_cheatAnalysis r) = [''Analysis failed'']" by simp_all
        with f have "res_confidence r
            = calculateConfidence (pm_movementQuality (res_performanceMetrics r)) False" by simp
        with i show "detectedIssues (res_cheatAnalysis r) = [''Analysis failed'']
                     \<and> res_confidence r
                         = (if pm_movementQuality (res_performanceMetrics r) > 0.8
                            then 0.9 else 0.8)"
          by (simp add: calculateConfidence_def Let_def)
      qed
      with c f show ?thesis by blast
    qed
    with Inr rs v show ?thesis by blast
  qed
  have B: "map_of (analysisCache s) (cacheKey j u t p) = None
        \<and> (t \<notin> set supportedTests \<or> analyzeMovement pd t = Inl e0
            \<or> (\<exists>m. analyzeMovement pd t = Inr m
                   \<and> performBenchmarking (calculatePerformance m t) p = Inl e0))
       \<longrightarrow> (\<exists>msg. fst (analyzeVideoOffline j pd env s u t p) =
                    Failure \<lparr>fr_error = True, fr_message = msg,
                             fr_fallbackResults = generateFallbackResults u t\<rparr>)"
  proof
    assume h: "map_of (analysisCache s) (cacheKey j u t p) = None
        \<and> (t \<notin> set supportedTests \<or> analyzeMovement pd t = Inl e0
            \<or> (\<exists>m. analyzeMovement pd t = Inr m
                   \<and> performBenchmarking (calculatePerformance m t) p = Inl e0))"
    then have miss: "map_of (analysisCache ?s) (cacheKey j u t p) = None" by simp
    have "\<exists>e. analyzeTry j pd env ?s u t p = Inl e"
    proof (cases "t \<in> set supportedTests")
      case False
      from analyzeTry_unsupported[OF miss False] show ?thesis by blast
    next
      case True
      with h have "analyzeMovement pd t = Inl e0
            \<or> (\<exists>m. analyzeMovement pd t = Inr m
                   \<and> performBenchmarking (calculatePerformance m t) p = Inl e0)" by blast
      then show ?thesis
        using analyzeTry_movement_fails[OF miss True] analyzeTry_benchmarking_fails[OF miss True]
        by blast
    qed
    then obtain e where "analyzeTry j pd env ?s u t p = Inl e" by blast
    then show "\<exists>msg. fst (analyzeVideoOffline j pd env s u t p) =
                    Failure \<lparr>fr_error = True, fr_message = msg,
                             fr_fallbackResults = generateFallbackResults u t\<rparr>"
      by (simp add: analyzeVideoOffline_def Let_def)
  qed
  from A B outcome_ignores_initialize show ?thesis by blast
qed


lemma sit_ups_movement_fails:
  "analyzeMovement boundaryPoses ''sit-ups''
     = Inl (TypeError ''Reduce of empty array with no initial value'')"
  by (simp add: analyzeMovement_def identifyMovementPhases_def assessMovementQuality_def
      assessForm_def assessSitUpForm_def assessConsistency_def identifyRepetitivePhases_def
      repetitiveStep_def calculateVariance_def reduceSum_def orDefault_def
      bindE_def boundaryPoses_def poseAt_def Let_def)

text \<open>
  Two failures on a fresh service: the unsupported test kind \<open>yoga\<close>, and a failed stage
  (sit-ups on a recording without any phase, where the variance of no durations is taken).
\<close>

theorem analyzeVideoOffline_failure_boundary_witness:
  "analyzeVideoOffline exampleStringify boundaryPoses (environmentAt ''2024-01-01T00:00:00.000Z'')
       freshService ''file:///video.mp4'' ''yoga'' exampleProfile
     = (Failure \<lparr>fr_error = True, fr_message = ''Unsupported test type: yoga'',
                  fr_fallbackResults = generateFallbackResults ''file:///video.mp4'' ''yoga''\<rparr>,
        ensureInitialized (environmentAt ''2024-01-01T00:00:00.000Z'') freshService)
   \<and> fb_confidence (generateFallbackResults ''file:///video.mp4'' ''yoga'') = 0
   \<and> analyzeVideoOffline exampleStringify boundaryPoses (environmentAt ''2024-01-01T00:00:00.000Z'')
       freshService ''file:///video.mp4'' ''sit-ups'' exampleProfile
     = (Failure \<lparr>fr_error = True,
                  fr_message = ''Reduce of empty array with no initial value'',
                  fr_fallbackResults = generateFallbackResults ''file:///video.mp4'' ''sit-ups''\<rparr>,
        ensureInitialized (environmentAt ''2024-01-01T00:00:00.000Z'') freshService)
   \<and> fb_confidence (generateFallbackResults ''file:///video.mp4'' ''sit-ups'') = 0"
proof -
  let ?env = "environmentAt ''2024-01-01T00:00:00.000Z''"
  let ?s = "ensureInitialized ?env freshService"
  have miss: "map_of (analysisCache ?s) k = None" for k
    by (simp add: freshService_def)
  have y: "analyzeTry exampleStringify boundaryPoses ?env ?s ''file:///video.mp4'' ''yoga''
             exampleProfile = Inl (Error ''Unsupported test type: yoga'')"
    using analyzeTry_unsupported[OF miss, of "''yoga''"] by (simp add: supportedTests_def)
  have u: "analyzeTry exampleStringify boundaryPoses ?env ?s ''file:///video.mp4'' ''sit-ups''
             exampleProfile = Inl (TypeError ''Reduce of empty array with no initial value'')"
    using analyzeTry_movement_fails[OF miss _ sit_ups_movement_fails]
    by (simp add: supportedTests_def)
  from analyzeVideoOffline_failure_boundary[of exampleStringify boundaryPoses ?env freshService
      "''file:///video.mp4''" "''yoga''" exampleProfile] y
  have a: "analyzeVideoOffline exampleStringify boundaryPoses ?env
       freshService ''file:///video.mp4'' ''yoga'' exampleProfile
     = (Failure \<lparr>fr_error = True, fr_message = ''Unsupported test type: yoga'',
                  fr_fallbackResults = generateFallbackResults ''file:///video.mp4'' ''yoga''\<rparr>, ?s)
     \<and> fb_confidence (generateFallbackResults ''file:///video.mp4'' ''yoga'') = 0"
    by auto
  from analyzeVideoOffline_failure_boundary[of exampleStringify boundaryPoses ?env freshService
      "''file:///video.mp4''" "''sit-ups''" exampleProfile] u
  have b: "analyzeVideoOffline exampleStringify boundaryPoses ?env
       freshService ''file:///video.mp4'' ''sit-ups'' exampleProfile
     = (Failure \<lparr>fr_error = True,
                  fr_message = ''Reduce of empty array with no initial value'',
                  fr_fallbackResults = generateFallbackResults ''file:///video.mp4'' ''sit-ups''\<rparr>, ?s)
     \<and> fb_confidence (generateFallbackResults ''file:///video.mp4'' ''sit-ups'') = 0"
    by auto
  from a b show ?thesis by blast
qed

text \<open>A successful run: a vertical jump on \<open>boundaryPoses\<close>.\<close>

lemma jump_movement_ok:
  "\<exists>m. analyzeMovement boundaryPoses ''vertical-jump'' = Inr m
       \<and> overallScore (mv_movementQuality m) = 33 / 40"
proof -
  have t: "\<exists>t. analyzeTiming boundaryPoses ''vertical-jump'' = Inr t"
    by (simp add: analyzeTiming_def totalDurationOf_def bindE_def boundaryPoses_def)
  then obtain t where "analyzeTiming boundaryPoses ''vertical-jump'' = Inr t" by blast
  then show ?thesis
    by (simp add: analyzeMovement_def identifyMovementPhases_def boundaryPoses_quality bindE_def)
qed

lemma jump_compile_ok:
  "\<exists>r. compileResults boundaryPoses env u ''vertical-jump'' exampleProfile = Inr r
       \<and> pm_movementQuality (res_performanceMetrics r) = 33 / 40"
proof -
  from jump_movement_ok obtain m where "analyzeMovement boundaryPoses ''vertical-jump'' = Inr m"
    and "overallScore (mv_movementQuality m) = 33 / 40"
    by blast
  then show ?thesis
    by (simp add: compileResults_def bindE_def Let_def performBenchmarking_def exampleProfile_def
        calculatePerformance_def)
qed

lemma jump_run_fresh:
  "\<exists>r. fst (analyzeVideoOffline exampleStringify boundaryPoses (environmentAt isoNow) freshService
            ''file:///jump.mp4'' ''vertical-jump'' exampleProfile) = Results r
       \<and> res_timestamp r = isoNow
       \<and> res_cheatAnalysis r = detectCheatAttempts (\<lambda>i. frameDataWith 0.75)
                                  ''file:///jump.mp4'' ''vertical-jump''
       \<and> res_confidence r = 9 / 10"
proof -
  let ?env = "environmentAt isoNow"
  from jump_compile_ok obtain r
    where r: "compileResults boundaryPoses ?env ''file:///jump.mp4'' ''vertical-jump'' exampleProfile
               = Inr r"
      and q: "pm_movementQuality (res_performanceMetrics r) = 33 / 40" by blast
  note f = compileResults_fields[OF r]
  from f have ts: "res_timestamp r = isoNow"
    by (simp add: environmentAt_def)
  from f have ch: "res_cheatAnalysis r = detectCheatAttempts (\<lambda>i. frameDataWith 0.75)
                     ''file:///jump.mp4'' ''vertical-jump''"
    by (simp add: environmentAt_def)
  from f q ch have co: "res_confidence r = 9 / 10"
    by (simp add: detectCheatAttempts_result calculateConfidence_def)
  have "analyzeTry exampleStringify boundaryPoses ?env (ensureInitialized ?env freshService)
          ''file:///jump.mp4'' ''vertical-jump'' exampleProfile
        = Inr (r, setCache (ensureInitialized ?env freshService)
                   (cacheKey exampleStringify ''file:///jump.mp4'' ''vertical-jump'' exampleProfile) r)"
    by (simp add: analyzeTry_def Let_def r bindE_def freshService_def supportedTests_def)
  then show ?thesis using ts ch co by (simp add: analyzeVideoOffline_def Let_def)
qed

text \<open>
  C4, as the specification states it, fails: not every failed internal stage yields
  confidence 0. In this run the integrity analysis fails (the call of the undefined
  \<^verbatim>\<open>detectRepetitions\<close> throws) and the entry point returns an ordinary result with the
  issue \<open>Analysis failed\<close> and confidence 0.9.
\<close>

theorem integrity_failure_confidence_counterexample:
  "(case fst (analyzeVideoOffline exampleStringify boundaryPoses
               (environmentAt ''2024-01-01T00:00:00.000Z'') freshService
               ''file:///jump.mp4'' ''vertical-jump'' exampleProfile) of
      Results r \<Rightarrow>
        cheatError (res_cheatAnalysis r) = Some ''this.detectRepetitions is not a function''
        \<and> detectedIssues (res_cheatAnalysis r) = [''Analysis failed'']
        \<and> res_confidence r = 0.9
    | Failure f \<Rightarrow> False)"
proof -
  from jump_run_fresh[of "''2024-01-01T00:00:00.000Z''"] obtain r
    where "fst (analyzeVideoOffline exampleStringify boundaryPoses
               (environmentAt ''2024-01-01T00:00:00.000Z'') freshService
               ''file:///jump.mp4'' ''vertical-jump'' exampleProfile) = Results r"
      and "res_cheatAnalysis r = detectCheatAttempts (\<lambda>i. frameDataWith 0.75)
                                  ''file:///jump.mp4'' ''vertical-jump''"
      and "res_confidence r = 9 / 10" by blast
  then show ?thesis by (simp add: detectCheatAttempts_result)
qed

section \<open>Repeated runs\<close>

lemma map_of_mapSet: "map_of (mapSet c k v) k = Some v"
  by (induction c k v rule: mapSet.induct) auto

lemma map_of_mapSet_other: "k' \<noteq> k \<Longrightarrow> map_of (mapSet c k v) k' = map_of c k'"
  by (induction c k v rule: mapSet.induct) auto

lemma length_mapSet: "length (mapSet c k v) \<le> Suc (length c)"
  by (induction c k v rule: mapSet.induct) auto

lemma cache_setCache: "map_of (analysisCache (setCache s k v)) k = Some v"
  by (simp add: setCache_def Let_def map_of_mapSet)

lemma cache_setCache_other:
  assumes "k' \<noteq> k" and "length (analysisCache s) < maxCacheSize"
  shows "map_of (analysisCache (setCache s k v)) k' = map_of (analysisCache s) k'"
  using assms by (simp add: setCache_def Let_def map_of_mapSet_other)

lemma length_setCache: "length (analysisCache (setCache s k v)) \<le> Suc (length (analysisCache s))"
proof -
  have "length (mapSet (tl (analysisCache s)) k v) \<le> Suc (length (analysisCache s))"
    using length_mapSet[of "tl (analysisCache s)" k v] by simp
  then show ?thesis
    using length_mapSet[of "analysisCache s" k v] by (simp add: setCache_def Let_def)
qed

lemma analyzeTry_hit:
  assumes "map_of (analysisCache s) (cacheKey j u t p) = Some r"
  shows "analyzeTry j pd env s u t p = Inr (r, s)"
  using assms by (simp add: analyzeTry_def Let_def)

lemma compileResults_error_env:
  assumes "compileResults pd env1 u t p = Inl e"
  shows "compileResults pd env2 u t p = Inl e"
  using compileResults_Inl_causes[OF assms]
  by (auto simp: compileResults_def bindE_def Let_def)

lemma analyzeTry_Inr_cached:
  assumes "analyzeTry j pd env s u t p = Inr (r, s')"
  shows "map_of (analysisCache s') (cacheKey j u t p) = Some r"
  using analyzeTry_Inr_cases[OF assms] analyzeTry_hit[of s j u t p r pd env] assms
  by (auto simp: cache_setCache)

lemma analyzeTry_error_env:
  assumes "analyzeTry j pd env1 s u t p = Inl e"
    and "map_of (analysisCache s') (cacheKey j u t p) = map_of (analysisCache s) (cacheKey j u t p)"
  shows "analyzeTry j pd env2 s' u t p = Inl e"
proof -
  from analyzeTry_Inl_causes[OF assms(1)]
  have miss: "map_of (analysisCache s) (cacheKey j u t p) = None" by simp
  with assms(2) have miss': "map_of (analysisCache s') (cacheKey j u t p) = None" by simp
  show ?thesis
  proof (cases "t \<in> set supportedTests")
    case False
    with assms(1) miss miss' show ?thesis by (simp add: analyzeTry_def Let_def)
  next
    case True
    with assms(1) miss have "compileResults pd env1 u t p = Inl e"
      by (cases "compileResults pd env1 u t p") (simp_all add: analyzeTry_def Let_def bindE_def)
    from compileResults_error_env[OF this, of env2] True miss' show ?thesis
      by (simp add: analyzeTry_def Let_def bindE_def)
  qed
qed

text \<open>
  What a run leaves in the cache: the entry of its own key, and every other entry as long
  as the cache is below its limit of 100 entries, where nothing is evicted.
\<close>

lemma run_cache:
  "analysisCache (snd (analyzeVideoOffline j pd env s u t p)) = analysisCache s
   \<or> (\<exists>r. analysisCache (snd (analyzeVideoOffline j pd env s u t p))
            = analysisCache (setCache (ensureInitialized env s) (cacheKey j u t p) r))"
proof (cases "analyzeTry j pd env (ensureInitialized env s) u t p")
  case (Inl e)
  then show ?thesis by (simp add: analyzeVideoOffline_def Let_def)
next
  case (Inr rs)
  obtain r s' where rs: "rs = (r, s')" by (cases rs)
  from analyzeTry_Inr_cases[OF Inr[unfolded rs]] analyzeTry_hit[of "ensureInitialized env s" j u t p r pd env]
    Inr rs
  show ?thesis by (auto simp: analyzeVideoOffline_def Let_def)
qed

lemma setCache_evicts_oldest:
  assumes "analysisCache s = (k0, v0) # rest" and "length (analysisCache s) \<ge> maxCacheSize"
    and "k0 \<notin> fst ` set rest" and "k \<noteq> k0"
  shows "map_of (analysisCache (setCache s k v)) k0 = None"
proof -
  from assms(3) have "map_of rest k0 = None" by (simp add: map_of_eq_None_iff)
  with assms show ?thesis by (simp add: setCache_def Let_def map_of_mapSet_other)
qed

lemma run_keeps_other_entries:
  assumes "cacheKey j u' t' p' \<noteq> k" and "length (analysisCache s) < maxCacheSize"
  shows "map_of (analysisCache (snd (analyzeVideoOffline j pd env s u' t' p'))) k
           = map_of (analysisCache s) k"
  using run_cache[of j pd env s u' t' p'] assms
    cache_setCache_other[of k "cacheKey j u' t' p'" "ensureInitialized env s"]
  by auto

lemma run_cache_length:
  "length (analysisCache (snd (analyzeVideoOffline j pd env s u t p)))
     \<le> Suc (length (analysisCache s))"
  using run_cache[of j pd env s u t p]
    length_setCache[of "ensureInitialized env s" "cacheKey j u t p"]
  by auto

text \<open>
  C9, amended. On one service instance, a run on an input returns what an earlier run on
  the same input returned, whatever the clock and the random draws of the later run are,
  as long as the cache entry under the key of the input is as the earlier run left it: a
  stored result not evicted since, or, after a failed run, still no entry. The condition
  holds when the later run follows at once, and when the runs in between used other keys
  on a cache below its limit of 100 entries.
\<close>

theorem repeat_run_while_cached:
  assumes "analyzeVideoOffline j pd env1 s u t p = (o1, s1)"
    and "map_of (analysisCache s2) (cacheKey j u t p)
           = map_of (analysisCache s1) (cacheKey j u t p)"
  shows "fst (analyzeVideoOffline j pd env2 s2 u t p) = o1"
proof (cases "analyzeTry j pd env1 (ensureInitialized env1 s) u t p")
  case (Inl e)
  with assms(1) have o1: "o1 = Failure \<lparr>fr_error = True, fr_message = message e,
                         fr_fallbackResults = generateFallbackResults u t\<rparr>"
    and s1: "s1 = ensureInitialized env1 s"
    by (simp_all add: analyzeVideoOffline_def Let_def)
  from assms(2) have "map_of (analysisCache (ensureInitialized env2 s2)) (cacheKey j u t p)
      = map_of (analysisCache (ensureInitialized env1 s)) (cacheKey j u t p)"
    by (simp add: s1)
  from analyzeTry_error_env[OF Inl this, of env2]
  show ?thesis by (simp add: analyzeVideoOffline_def Let_def o1)
next
  case (Inr rs)
  obtain r s' where rs: "rs = (r, s')" by (cases rs)
  with Inr assms(1) have o1: "o1 = Results r" and s1: "s1 = s'"
    by (simp_all add: analyzeVideoOffline_def Let_def)
  from analyzeTry_Inr_cached[OF Inr[unfolded rs]] assms(2)
  have "map_of (analysisCache (ensureInitialized env2 s2)) (cacheKey j u t p) = Some r"
    by (simp add: s1)
  from analyzeTry_hit[OF this]
  show ?thesis by (simp add: analyzeVideoOffline_def Let_def o1)
qed

text \<open>
  C9, as the specification states it, fails: the result is not a function of the input.
  Two runs on the same input, each on a fresh service and with the same random draws, at
  two different times return different results, since a computed result carries the time
  of its computation.
\<close>

theorem analysis_reads_clock_counterexample:
  "fst (analyzeVideoOffline exampleStringify boundaryPoses
          (environmentAt ''2024-01-01T00:00:00.000Z'') freshService
          ''file:///jump.mp4'' ''vertical-jump'' exampleProfile)
   \<noteq> fst (analyzeVideoOffline exampleStringify boundaryPoses
          (environmentAt ''2024-01-01T00:00:05.000Z'') freshService
          ''file:///jump.mp4'' ''vertical-jump'' exampleProfile)"
proof -
  from jump_run_fresh[of "''2024-01-01T00:00:00.000Z''"] obtain r1
    where r1: "fst (analyzeVideoOffline exampleStringify boundaryPoses
          (environmentAt ''2024-01-01T00:00:00.000Z'') freshService
          ''file:///jump.mp4'' ''vertical-jump'' exampleProfile) = Results r1"
      and t1: "res_timestamp r1 = ''2024-01-01T00:00:00.000Z''" by blast
  from jump_run_fresh[of "''2024-01-01T00:00:05.000Z''"] obtain r2
    where r2: "fst (analyzeVideoOffline exampleStringify boundaryPoses
          (environmentAt ''2024-01-01T00:00:05.000Z'') freshService
          ''file:///jump.mp4'' ''vertical-jump'' exampleProfile) = Results r2"
      and t2: "res_timestamp r2 = ''2024-01-01T00:00:05.000Z''" by blast
  from t1 t2 have "r1 \<noteq> r2" by auto
  with r1 r2 show ?thesis by simp
qed

text \<open>
  Three runs on one service: a jump video, another video three seconds later, and the
  first video again after five seconds, which returns the result of the first run.
\<close>

theorem repeat_run_while_cached_witness:
  "fst (analyzeVideoOffline exampleStringify boundaryPoses
          (environmentAt ''2024-01-01T00:00:05.000Z'')
          (snd (analyzeVideoOffline exampleStringify boundaryPoses
                  (environmentAt ''2024-01-01T00:00:03.000Z'')
                  (snd (analyzeVideoOffline exampleStringify boundaryPoses
                          (environmentAt ''2024-01-01T00:00:00.000Z'') freshService
                          ''file:///jump.mp4'' ''vertical-jump'' exampleProfile))
                  ''file:///other.mp4'' ''vertical-jump'' exampleProfile))
          ''file:///jump.mp4'' ''vertical-jump'' exampleProfile)
   = fst (analyzeVideoOffline exampleStringify boundaryPoses
          (environmentAt ''2024-01-01T00:00:00.000Z'') freshService
          ''file:///jump.mp4'' ''vertical-jump'' exampleProfile)"
proof -
  let ?runA = "analyzeVideoOffline exampleStringify boundaryPoses
                 (environmentAt ''2024-01-01T00:00:00.000Z'') freshService
                 ''file:///jump.mp4'' ''vertical-jump'' exampleProfile"
  have k: "cacheKey exampleStringify ''file:///other.mp4'' ''vertical-jump'' exampleProfile
             \<noteq> cacheKey exampleStringify ''file:///jump.mp4'' ''vertical-jump'' exampleProfile"
    by (simp add: cacheKey_def)
  have "length (analysisCache (snd ?runA)) \<le> Suc (length (analysisCache freshService))"
    by (rule run_cache_length)
  then have l: "length (analysisCache (snd ?runA)) < maxCacheSize"
    by (simp add: freshService_def maxCacheSize_def)
  from run_keeps_other_entries[OF k l]
  have kept: "map_of (analysisCache (snd (analyzeVideoOffline exampleStringify boundaryPoses
                  (environmentAt ''2024-01-01T00:00:03.000Z'') (snd ?runA)
                  ''file:///other.mp4'' ''vertical-jump'' exampleProfile)))
               (cacheKey exampleStringify ''file:///jump.mp4'' ''vertical-jump'' exampleProfile)
          = map_of (analysisCache (snd ?runA))
               (cacheKey exampleStringify ''file:///jump.mp4'' ''vertical-jump'' exampleProfile)" .
  from repeat_run_while_cached[OF prod.collapse[symmetric] kept]
  show ?thesis .
qed

end
